theory Spec2Isabelle
  imports Main
begin

section \<open>ValueControl: the data model\<close>

text \<open>
  A shallow embedding of \<^verbatim>\<open>src/commonControls/ValueControl.ts\<close>. Every method of the class
  becomes a function that takes the control (and the result builder, where the method
  receives one) and returns them updated, together with the value returned or the
  exception thrown. \<^verbatim>\<open>await\<close> is sequencing: a turn runs one call after the other.
\<close>

subsection \<open>Exceptions\<close>

text \<open>
  \<^verbatim>\<open>GuardFailed\<close> is what \<^verbatim>\<open>okIf\<close> throws, \<^verbatim>\<open>TypeError\<close> is a property read on
  \<^verbatim>\<open>undefined\<close>, and \<^verbatim>\<open>Error m\<close> is \<^verbatim>\<open>throw new Error(m)\<close>.
\<close>

datatype error = GuardFailed | TypeError | Error string

definition andThen :: "error + 'a \<Rightarrow> ('a \<Rightarrow> error + 'b) \<Rightarrow> error + 'b" where
  "andThen r f = (case r of Inl e \<Rightarrow> Inl e | Inr x \<Rightarrow> f x)"

subsection \<open>Validation results and the control's state\<close>

record ValidationFailure =
  reasonCode :: "string option"
  renderedReason :: "string option"

text \<open>The type \<^verbatim>\<open>true | ValidationFailure\<close>.\<close>

datatype ValidationResult = ValidationTrue | ValidationFailed ValidationFailure

record LastInitiativeState =
  actName :: "string option"

text \<open>
  \<^verbatim>\<open>ValueControlState\<close>. The field \<^verbatim>\<open>value\<close> is declared a \<^verbatim>\<open>string\<close> but starts
  out \<^verbatim>\<open>undefined\<close>, and the code tests it against \<^verbatim>\<open>undefined\<close>, so it is an option.
  \<^verbatim>\<open>lastInitiative\<close> is declared without an initialiser: a \<^verbatim>\<open>new ValueControlState()\<close>
  has it undefined. The constructor of the control assigns \<^verbatim>\<open>{}\<close> to it, an object
  whose \<^verbatim>\<open>actName\<close> is undefined; \<^verbatim>\<open>clear()\<close> does not. So the field is an option,
  and a read or a write of \<^verbatim>\<open>this.state.lastInitiative.actName\<close> throws a
  \<^verbatim>\<open>TypeError\<close> where it is undefined.
\<close>

record ValueControlState =
  value' :: "string option"
  erMatch :: "bool option"
  elicitationAction :: "string option"
  isValueConfirmed :: bool
  previousValue :: "string option"
  lastInitiative :: "LastInitiativeState option"

subsection \<open>Inputs\<close>

text \<open>
  Modelled from the spec: \<^verbatim>\<open>ControlInput\<close>, \<^verbatim>\<open>unpackValueControlIntent\<close> and
  \<^verbatim>\<open>unpackGeneralControlIntent\<close> are not among the sources. The spec describes the input as
  a normalized request: a request kind (launch, intent, platform event) and, for an intent,
  its name, the slots feedback, action and target, and the value-bearing slot with its
  entity-resolution match indicator. The record \<open>Intent\<close> is the intent as the two
  \<^verbatim>\<open>unpack\<close> functions return it.
\<close>

record SlotValue =
  slotValue :: "string option"
  isEntityResolutionMatch :: "bool option"

record Intent =
  name :: string
  feedback :: "string option"
  action :: "string option"
  target :: "string option"
  values' :: "SlotValue list"
  valueType :: "string option"

datatype Request = LaunchRequest | IntentRequest Intent | PlatformEvent

record ControlInput =
  request :: Request

subsection \<open>System acts and the result builder\<close>

text \<open>
  Each act carries the id of the control that issued it (\<^verbatim>\<open>new RequestValueAct(this)\<close>)
  and then its payload, in the order the source writes the payload's fields:
  \<^item> \<open>ValueSetAct id value renderedValue\<close>
  \<^item> \<open>ValueChangedAct id previousValue renderedPreviousValue value renderedValue\<close>
  \<^item> \<open>InvalidValueAct id value renderedValue reasonCode renderedReason\<close>
  \<^item> \<open>ValueConfirmedAct id value renderedValue\<close>, \<open>ValueDisconfirmedAct\<close> likewise
  \<^item> \<open>RequestValueAct id\<close>
  \<^item> \<open>RequestChangedValueAct id currentValue renderedValue\<close>
  \<^item> \<open>ConfirmValueAct id value renderedValue\<close>
\<close>

datatype SystemAct =
    ValueSetAct string "string option" "string option"
  | ValueChangedAct string string "string option" "string option" "string option"
  | InvalidValueAct string "string option" "string option" "string option" "string option"
  | ValueConfirmedAct string "string option" "string option"
  | ValueDisconfirmedAct string "string option" "string option"
  | RequestValueAct string
  | RequestChangedValueAct string "string option" "string option"
  | ConfirmValueAct string "string option" "string option"

text \<open>
  The source imports the last three from \<^verbatim>\<open>systemActs/InitiativeActs\<close> and the others
  from \<^verbatim>\<open>systemActs/ContentActs\<close>.
\<close>

fun takesInitiative :: "SystemAct \<Rightarrow> bool" where
  "takesInitiative (RequestValueAct _) = True"
| "takesInitiative (RequestChangedValueAct _ _ _) = True"
| "takesInitiative (ConfirmValueAct _ _ _) = True"
| "takesInitiative _ = False"

fun isConfirmValueAct :: "SystemAct \<Rightarrow> bool" where
  "isConfirmValueAct (ConfirmValueAct _ _ _) = True"
| "isConfirmValueAct _ = False"

fun isValueChangedAct :: "SystemAct \<Rightarrow> bool" where
  "isValueChangedAct (ValueChangedAct _ _ _ _ _) = True"
| "isValueChangedAct _ = False"

text \<open>
  Modelled from the spec: \<^verbatim>\<open>ControlResultBuilder\<close> (\<^verbatim>\<open>controls/ControlResult\<close>) is not among
  the sources. The spec says that the builder appends acts in the order produced and
  exposes whether an initiative act is already present.
\<close>

record ControlResultBuilder =
  acts :: "SystemAct list"

definition addAct :: "SystemAct \<Rightarrow> ControlResultBuilder \<Rightarrow> ControlResultBuilder" where
  "addAct a rb = rb\<lparr>acts := acts rb @ [a]\<rparr>"

definition hasInitiativeAct :: "ControlResultBuilder \<Rightarrow> bool" where
  "hasInitiativeAct rb = list_ex takesInitiative (acts rb)"

definition initiativeActs :: "ControlResultBuilder \<Rightarrow> SystemAct list" where
  "initiativeActs rb = filter takesInitiative (acts rb)"

subsection \<open>Props and the control\<close>

type_synonym StateValidationFunction = "ValueControlState \<Rightarrow> ControlInput \<Rightarrow> ValidationResult"

text \<open>\<^verbatim>\<open>validation\<close> is one function or an array of them; a boolean prop is a constant or a function of the input.\<close>

datatype ValidationProp =
    ValidationFunction StateValidationFunction
  | ValidationList "StateValidationFunction list"

datatype BooleanProp = BooleanValue bool | BooleanFunction "ControlInput \<Rightarrow> bool"

text \<open>
  What a handler does to the control's state and to the result builder. A custom handler
  is user code, called with the control as \<^verbatim>\<open>this\<close>.
\<close>

type_synonym HandlerEffect =
  "ControlInput \<Rightarrow> ValueControlState \<Rightarrow> ControlResultBuilder
     \<Rightarrow> (error + unit) \<times> ValueControlState \<times> ControlResultBuilder"

record ControlInputHandler =
  handlerName :: string
  handlerCanHandle :: "ValueControlState \<Rightarrow> ControlInput \<Rightarrow> error + bool"
  handlerHandle :: HandlerEffect

text \<open>
  \<^verbatim>\<open>ValueControlProps\<close> as the user gives them (optional fields may be absent), with
  \<^verbatim>\<open>interactionModel.targets\<close>, \<^verbatim>\<open>interactionModel.actions.set\<close>,
  \<^verbatim>\<open>interactionModel.actions.change\<close> and \<^verbatim>\<open>inputHandling.customHandlingFuncs\<close> flattened.
  Prompts and reprompts are used by \<^verbatim>\<open>renderAct\<close> only and are left out.
\<close>

record ValueControlProps =
  raw_id :: string
  raw_slotType :: string
  raw_validation :: "ValidationProp option"
  raw_required :: "BooleanProp option"
  raw_confirmationRequired :: "BooleanProp option"
  raw_targets :: "string list option"
  raw_actions_set :: "string list option"
  raw_actions_change :: "string list option"
  raw_customHandlingFuncs :: "ControlInputHandler list option"
  raw_valueRenderer :: "(string option \<Rightarrow> ControlInput \<Rightarrow> string option) option"

text \<open>\<^verbatim>\<open>DeepRequired<ValueControlProps>\<close>: the props after the merge with the defaults.\<close>

record DeepRequiredProps =
  id' :: string
  slotType :: string
  validation :: ValidationProp
  required :: BooleanProp
  confirmationRequired :: BooleanProp
  targets :: "string list"
  actions_set :: "string list"
  actions_change :: "string list"
  customHandlingFuncs :: "ControlInputHandler list"
  valueRenderer :: "string option \<Rightarrow> ControlInput \<Rightarrow> string option"

text \<open>
  The private fields \<^verbatim>\<open>handleFunc\<close> and \<^verbatim>\<open>initiativeFunc\<close> hold a method of the
  control (or a custom handler's function), or are undefined.
\<close>

datatype HandleFunc =
    Fn_handleSetWithValue
  | Fn_handleChangeWithValue
  | Fn_handleSetWithoutValue
  | Fn_handleChangeWithoutValue
  | Fn_handleBareValue
  | Fn_handleConfirmationAffirmed
  | Fn_handleConfirmationDisaffirmed
  | Fn_custom HandlerEffect

datatype InitiativeFunc = Fn_confirmValue | Fn_fixInvalidValue | Fn_elicitValue

record ValueControl =
  props :: DeepRequiredProps
  state :: ValueControlState
  handleFunc :: "HandleFunc option"
  initiativeFunc :: "InitiativeFunc option"

section \<open>Collaborators that are not among the sources\<close>

subsection \<open>Constants\<close>

text \<open>
  Modelled from the spec: \<^verbatim>\<open>constants/Strings\<close>, \<^verbatim>\<open>AmazonBuiltInSlotType\<close> and the intent
  classes are not among the sources. The values are the ones the doc comments of
  \<^verbatim>\<open>ValueControl.ts\<close> give (\<^verbatim>\<open>Default: ['builtin_set']\<close>, \<^verbatim>\<open>['builtin_change']\<close>,
  \<^verbatim>\<open>['builtin_it']\<close>, \<^verbatim>\<open>{slotType}_ValueControlIntent\<close>, \<^verbatim>\<open>AMAZON.YesIntent\<close>,
  \<^verbatim>\<open>AMAZON.NoIntent\<close>, and \<^verbatim>\<open>AMAZON.SearchQuery\<close> in the constructor's message); a class's
  \<^verbatim>\<open>name\<close> is the name of the class. The two feedback ids follow the pattern of the
  others. Of all these values the properties below use only that the ids for ``set'' and
  ``change'' differ.
\<close>

definition Action_Set :: string where "Action_Set = ''builtin_set''"
definition Action_Change :: string where "Action_Change = ''builtin_change''"
definition Target_It :: string where "Target_It = ''builtin_it''"
definition Feedback_Affirm :: string where "Feedback_Affirm = ''builtin_affirm''"
definition Feedback_Disaffirm :: string where "Feedback_Disaffirm = ''builtin_disaffirm''"
definition SEARCH_QUERY :: string where "SEARCH_QUERY = ''AMAZON.SearchQuery''"
definition ConfirmValueAct_name :: string where "ConfirmValueAct_name = ''ConfirmValueAct''"
definition GeneralControlIntent_name :: string where "GeneralControlIntent_name = ''GeneralControlIntent''"
definition YesIntent :: string where "YesIntent = ''AMAZON.YesIntent''"
definition NoIntent :: string where "NoIntent = ''AMAZON.NoIntent''"

definition intentName :: "string \<Rightarrow> string" where
  "intentName st = st @ ''_ValueControlIntent''"

subsection \<open>Guards\<close>

text \<open>
  Modelled from the spec: \<^verbatim>\<open>utils/Predicates\<close> is not among the sources. Every predicate of
  the control is \<^verbatim>\<open>try { okIf(..); ..; return true } catch (e) { return falseIfGuardFailed(e) }\<close>:
  \<^verbatim>\<open>okIf\<close> throws the guard's own exception on a false condition, and
  \<^verbatim>\<open>falseIfGuardFailed\<close> turns that exception into \<^verbatim>\<open>false\<close> and throws any other one again.
\<close>

definition okIf :: "bool \<Rightarrow> error + unit" where
  "okIf b = (if b then Inr () else Inl GuardFailed)"

definition falseIfGuardFailed :: "error \<Rightarrow> error + bool" where
  "falseIfGuardFailed e = (if e = GuardFailed then Inr False else Inl e)"

subsection \<open>InputUtil\<close>

text \<open>
  Modelled from the spec: \<^verbatim>\<open>utils/InputUtil\<close> is not among the sources; each function does
  what its name says on the normalized input. \<open>intentOf\<close> is the expression
  \<^verbatim>\<open>(input.request as IntentRequest).intent\<close> followed by a property read, which throws on a
  request that has no intent; \<open>firstValue\<close> is \<^verbatim>\<open>values[0]\<close> followed by a property
  read, which throws on an empty array.
\<close>

definition isIntent :: "ControlInput \<Rightarrow> string \<Rightarrow> bool" where
  "isIntent input nm = (case request input of IntentRequest it \<Rightarrow> name it = nm | _ \<Rightarrow> False)"

definition intentOf :: "ControlInput \<Rightarrow> error + Intent" where
  "intentOf input = (case request input of IntentRequest it \<Rightarrow> Inr it | _ \<Rightarrow> Inl TypeError)"

definition firstValue :: "SlotValue list \<Rightarrow> error + SlotValue" where
  "firstValue vs = (case vs of [] \<Rightarrow> Inl TypeError | v # _ \<Rightarrow> Inr v)"

definition targetIsMatchOrUndefined :: "string option \<Rightarrow> string list \<Rightarrow> bool" where
  "targetIsMatchOrUndefined t ts = (case t of None \<Rightarrow> True | Some x \<Rightarrow> x \<in> set ts)"

definition targetIsUndefined :: "string option \<Rightarrow> bool" where
  "targetIsUndefined t = (t = None)"

definition valueTypeMatch :: "string option \<Rightarrow> string \<Rightarrow> bool" where
  "valueTypeMatch vt st = (vt = Some st)"

definition valueStrDefined :: "string option \<Rightarrow> bool" where
  "valueStrDefined v = (v \<noteq> None)"

definition feedbackIsMatchOrUndefined :: "string option \<Rightarrow> string list \<Rightarrow> bool" where
  "feedbackIsMatchOrUndefined f fs = (case f of None \<Rightarrow> True | Some x \<Rightarrow> x \<in> set fs)"

definition feedbackIsUndefined :: "string option \<Rightarrow> bool" where
  "feedbackIsUndefined f = (f = None)"

definition actionIsMatch :: "string option \<Rightarrow> string list \<Rightarrow> bool" where
  "actionIsMatch a as = (case a of None \<Rightarrow> False | Some x \<Rightarrow> x \<in> set as)"

definition actionIsUndefined :: "string option \<Rightarrow> bool" where
  "actionIsUndefined a = (a = None)"

definition isBareYes :: "ControlInput \<Rightarrow> bool" where
  "isBareYes input = isIntent input YesIntent"

definition isBareNo :: "ControlInput \<Rightarrow> bool" where
  "isBareNo input = isIntent input NoIntent"

definition getValueResolution :: "ControlInput \<Rightarrow> error + (string option \<times> bool option)" where
  "getValueResolution input =
     andThen (intentOf input) (\<lambda>it.
     andThen (firstValue (values' it)) (\<lambda>v.
     Inr (slotValue v, isEntityResolutionMatch v)))"

subsection \<open>Validation and boolean props\<close>

text \<open>
  Modelled from the spec: \<^verbatim>\<open>evaluateValidationProp\<close> (\<^verbatim>\<open>controls/Validation\<close>) is not among the
  sources. The spec: validation is an ordered list of predicates over (state, input), and
  the first failure wins. A single function counts as the list of that one function.
\<close>

fun evaluateValidationList :: "StateValidationFunction list \<Rightarrow> ValueControlState \<Rightarrow> ControlInput \<Rightarrow> ValidationResult" where
  "evaluateValidationList [] s input = ValidationTrue"
| "evaluateValidationList (f # fs) s input =
     (case f s input of
        ValidationTrue \<Rightarrow> evaluateValidationList fs s input
      | ValidationFailed r \<Rightarrow> ValidationFailed r)"

fun listOfValidationFunc :: "ValidationProp \<Rightarrow> StateValidationFunction list" where
  "listOfValidationFunc (ValidationFunction f) = [f]"
| "listOfValidationFunc (ValidationList fs) = fs"

definition evaluateValidationProp :: "ValidationProp \<Rightarrow> ValueControlState \<Rightarrow> ControlInput \<Rightarrow> ValidationResult" where
  "evaluateValidationProp vp s input = evaluateValidationList (listOfValidationFunc vp) s input"

text \<open>
  Modelled from the spec: \<^verbatim>\<open>Control.evaluateBooleanProp\<close> (\<^verbatim>\<open>controls/Control\<close>) is not among
  the sources; a prop of type \<^verbatim>\<open>boolean | ((input) => boolean)\<close> is the constant, or the
  function applied to the input.
\<close>

fun evaluateBooleanProp :: "BooleanProp \<Rightarrow> ControlInput \<Rightarrow> bool" where
  "evaluateBooleanProp (BooleanValue b) input = b"
| "evaluateBooleanProp (BooleanFunction f) input = f input"

section \<open>ValueControl: the methods\<close>

subsection \<open>The constructor\<close>

text \<open>
  \<^verbatim>\<open>_.merge(defaults, props)\<close>: a field the user left undefined keeps its default, a
  scalar or a function replaces the default, and an array is merged into the default array
  index by index (the user's elements, then what is left of a longer default).
\<close>

definition mergeArray :: "'a list \<Rightarrow> 'a list option \<Rightarrow> 'a list" where
  "mergeArray d u = (case u of None \<Rightarrow> d | Some xs \<Rightarrow> xs @ drop (length xs) d)"

definition mergeValidation :: "ValidationProp option \<Rightarrow> ValidationProp" where
  "mergeValidation u =
     (case u of
        None \<Rightarrow> ValidationList []
      | Some (ValidationFunction f) \<Rightarrow> ValidationFunction f
      | Some (ValidationList fs) \<Rightarrow> ValidationList (mergeArray [] (Some fs)))"

definition mergeWithDefaultProps :: "ValueControlProps \<Rightarrow> DeepRequiredProps" where
  "mergeWithDefaultProps p =
     \<lparr> id' = raw_id p,
       slotType = raw_slotType p,
       validation = mergeValidation (raw_validation p),
       required = (case raw_required p of None \<Rightarrow> BooleanValue True | Some b \<Rightarrow> b),
       confirmationRequired =
         (case raw_confirmationRequired p of None \<Rightarrow> BooleanValue False | Some b \<Rightarrow> b),
       targets = mergeArray [Target_It] (raw_targets p),
       actions_set = mergeArray [Action_Set] (raw_actions_set p),
       actions_change = mergeArray [Action_Change] (raw_actions_change p),
       customHandlingFuncs = mergeArray [] (raw_customHandlingFuncs p),
       valueRenderer = (case raw_valueRenderer p of None \<Rightarrow> (\<lambda>v input. v) | Some f \<Rightarrow> f) \<rparr>"

text \<open>
  \<^verbatim>\<open>new ValueControlState()\<close>: only \<^verbatim>\<open>isValueConfirmed\<close> has an initialiser. The
  constructor then assigns \<^verbatim>\<open>this.state.lastInitiative = {}\<close>.
\<close>

definition newValueControlState :: ValueControlState where
  "newValueControlState =
     \<lparr> value' = None, erMatch = None, elicitationAction = None, isValueConfirmed = False,
       previousValue = None, lastInitiative = None \<rparr>"

definition initialState :: ValueControlState where
  "initialState = newValueControlState\<lparr>lastInitiative := Some \<lparr> actName = None \<rparr>\<rparr>"

definition constructor :: "ValueControlProps \<Rightarrow> error + ValueControl" where
  "constructor p =
     (if raw_slotType p = SEARCH_QUERY
      then Inl (Error
        (''AMAZON.SearchQuery cannot be used with ValueControl due to the special rules regarding its use. '' @
         ''Specifically, utterances that include SearchQuery must have a carrier phrase and not be comprised entirely of slot references. '' @
         ''Use a custom intent to manage SearchQuery slots or create a regular slot for use with ValueControl.''))
      else Inr \<lparr> props = mergeWithDefaultProps p, state = initialState,
                 handleFunc = None, initiativeFunc = None \<rparr>)"

text \<open>\<^verbatim>\<open>clear()\<close>: \<^verbatim>\<open>this.state = new ValueControlState()\<close>, and nothing else.\<close>

definition clear :: "ValueControl \<Rightarrow> ValueControl" where
  "clear c = c\<lparr>state := newValueControlState\<rparr>"

subsection \<open>The predicates over the input\<close>

text \<open>
  Each predicate returns what the method returns or throws, and the control, whose
  \<^verbatim>\<open>handleFunc\<close> the method sets just before it returns true. \<open>lastInitiativeOf\<close> is
  the expression \<^verbatim>\<open>this.state.lastInitiative\<close> followed by a property access.
\<close>

definition lastInitiativeOf :: "ValueControlState \<Rightarrow> error + LastInitiativeState" where
  "lastInitiativeOf s = (case lastInitiative s of None \<Rightarrow> Inl TypeError | Some li \<Rightarrow> Inr li)"

definition isSetWithValue :: "ValueControl \<Rightarrow> ControlInput \<Rightarrow> (error + bool) \<times> ValueControl" where
  "isSetWithValue c input =
     (case
        andThen (okIf (isIntent input (intentName (slotType (props c))))) (\<lambda>_.
        andThen (intentOf input) (\<lambda>it.
        andThen (firstValue (values' it)) (\<lambda>v.
        andThen (okIf (targetIsMatchOrUndefined (target it) (targets (props c)))) (\<lambda>_.
        andThen (okIf (valueTypeMatch (valueType it) (slotType (props c)))) (\<lambda>_.
        andThen (okIf (valueStrDefined (slotValue v))) (\<lambda>_.
        andThen (okIf (feedbackIsMatchOrUndefined (feedback it) [Feedback_Affirm, Feedback_Disaffirm])) (\<lambda>_.
        okIf (actionIsMatch (action it) (actions_set (props c))))))))))
      of
        Inr _ \<Rightarrow> (Inr True, c\<lparr>handleFunc := Some Fn_handleSetWithValue\<rparr>)
      | Inl e \<Rightarrow> (falseIfGuardFailed e, c))"

definition isSetWithoutValue :: "ValueControl \<Rightarrow> ControlInput \<Rightarrow> (error + bool) \<times> ValueControl" where
  "isSetWithoutValue c input =
     (case
        andThen (okIf (isIntent input GeneralControlIntent_name)) (\<lambda>_.
        andThen (intentOf input) (\<lambda>it.
        andThen (okIf (targetIsMatchOrUndefined (target it) (targets (props c)))) (\<lambda>_.
        andThen (okIf (feedbackIsMatchOrUndefined (feedback it) [Feedback_Affirm, Feedback_Disaffirm])) (\<lambda>_.
        okIf (actionIsMatch (action it) (actions_set (props c)))))))
      of
        Inr _ \<Rightarrow> (Inr True, c\<lparr>handleFunc := Some Fn_handleSetWithoutValue\<rparr>)
      | Inl e \<Rightarrow> (falseIfGuardFailed e, c))"

definition isChangeWithValue :: "ValueControl \<Rightarrow> ControlInput \<Rightarrow> (error + bool) \<times> ValueControl" where
  "isChangeWithValue c input =
     (case
        andThen (okIf (isIntent input (intentName (slotType (props c))))) (\<lambda>_.
        andThen (intentOf input) (\<lambda>it.
        andThen (firstValue (values' it)) (\<lambda>v.
        andThen (okIf (targetIsMatchOrUndefined (target it) (targets (props c)))) (\<lambda>_.
        andThen (okIf (valueTypeMatch (valueType it) (slotType (props c)))) (\<lambda>_.
        andThen (okIf (valueStrDefined (slotValue v))) (\<lambda>_.
        andThen (okIf (feedbackIsMatchOrUndefined (feedback it) [Feedback_Affirm, Feedback_Disaffirm])) (\<lambda>_.
        okIf (actionIsMatch (action it) (actions_change (props c))))))))))
      of
        Inr _ \<Rightarrow> (Inr True, c\<lparr>handleFunc := Some Fn_handleChangeWithValue\<rparr>)
      | Inl e \<Rightarrow> (falseIfGuardFailed e, c))"

definition isChangeWithoutValue :: "ValueControl \<Rightarrow> ControlInput \<Rightarrow> (error + bool) \<times> ValueControl" where
  "isChangeWithoutValue c input =
     (case
        andThen (okIf (isIntent input GeneralControlIntent_name)) (\<lambda>_.
        andThen (intentOf input) (\<lambda>it.
        andThen (okIf (targetIsMatchOrUndefined (target it) (targets (props c)))) (\<lambda>_.
        andThen (okIf (feedbackIsMatchOrUndefined (feedback it) [Feedback_Affirm, Feedback_Disaffirm])) (\<lambda>_.
        okIf (actionIsMatch (action it) (actions_change (props c)))))))
      of
        Inr _ \<Rightarrow> (Inr True, c\<lparr>handleFunc := Some Fn_handleChangeWithoutValue\<rparr>)
      | Inl e \<Rightarrow> (falseIfGuardFailed e, c))"

definition isBareValue :: "ValueControl \<Rightarrow> ControlInput \<Rightarrow> (error + bool) \<times> ValueControl" where
  "isBareValue c input =
     (case
        andThen (okIf (isIntent input (intentName (slotType (props c))))) (\<lambda>_.
        andThen (intentOf input) (\<lambda>it.
        andThen (firstValue (values' it)) (\<lambda>v.
        andThen (okIf (feedbackIsUndefined (feedback it))) (\<lambda>_.
        andThen (okIf (actionIsUndefined (action it))) (\<lambda>_.
        andThen (okIf (targetIsUndefined (target it))) (\<lambda>_.
        andThen (okIf (valueStrDefined (slotValue v))) (\<lambda>_.
        okIf (valueTypeMatch (valueType it) (slotType (props c))))))))))
      of
        Inr _ \<Rightarrow> (Inr True, c\<lparr>handleFunc := Some Fn_handleBareValue\<rparr>)
      | Inl e \<Rightarrow> (falseIfGuardFailed e, c))"

definition isConfirmationAffirmed :: "ValueControl \<Rightarrow> ControlInput \<Rightarrow> (error + bool) \<times> ValueControl" where
  "isConfirmationAffirmed c input =
     (case
        andThen (okIf (isBareYes input)) (\<lambda>_.
        andThen (lastInitiativeOf (state c)) (\<lambda>li.
        okIf (actName li = Some ConfirmValueAct_name)))
      of
        Inr _ \<Rightarrow> (Inr True, c\<lparr>handleFunc := Some Fn_handleConfirmationAffirmed\<rparr>)
      | Inl e \<Rightarrow> (falseIfGuardFailed e, c))"

definition isConfirmationDisaffirmed :: "ValueControl \<Rightarrow> ControlInput \<Rightarrow> (error + bool) \<times> ValueControl" where
  "isConfirmationDisaffirmed c input =
     (case
        andThen (okIf (isBareNo input)) (\<lambda>_.
        andThen (lastInitiativeOf (state c)) (\<lambda>li.
        okIf (actName li = Some ConfirmValueAct_name)))
      of
        Inr _ \<Rightarrow> (Inr True, c\<lparr>handleFunc := Some Fn_handleConfirmationDisaffirmed\<rparr>)
      | Inl e \<Rightarrow> (falseIfGuardFailed e, c))"

subsection \<open>Setting the value, eliciting and validating\<close>

text \<open>
  \<^verbatim>\<open>setValue(value, erMatch = true)\<close>: the default applies when the argument is undefined.
  The handlers pass \<^verbatim>\<open>values[0].slotValue\<close>, which the type checker takes for a string
  and which may be undefined at run time, so the new value is an option too.
\<close>

definition setValue :: "string option \<Rightarrow> bool option \<Rightarrow> ValueControl \<Rightarrow> ValueControl" where
  "setValue v er c =
     c\<lparr>state := (state c)\<lparr>
          previousValue := value' (state c),
          value' := v,
          erMatch := Some (case er of None \<Rightarrow> True | Some b \<Rightarrow> b),
          isValueConfirmed := False\<rparr>\<rparr>"

definition askElicitationQuestion ::
  "ValueControl \<Rightarrow> ControlInput \<Rightarrow> ControlResultBuilder \<Rightarrow> string
     \<Rightarrow> (error + unit) \<times> ValueControl \<times> ControlResultBuilder" where
  "askElicitationQuestion c input rb act =
     (let c1 = c\<lparr>state := (state c)\<lparr>elicitationAction := Some act\<rparr>\<rparr> in
      if act = Action_Set then
        (Inr (), c1, addAct (RequestValueAct (id' (props c1))) rb)
      else if act = Action_Change then
        (Inr (), c1,
         addAct (RequestChangedValueAct (id' (props c1)) (value' (state c1))
                   (valueRenderer (props c1) (value' (state c1)) input)) rb)
      else
        (Inl (Error (''Unhandled. Unknown elicitationAction: '' @ act)), c1, rb))"

definition validateAndAddActs ::
  "ValueControl \<Rightarrow> ControlInput \<Rightarrow> ControlResultBuilder \<Rightarrow> string
     \<Rightarrow> (error + unit) \<times> ValueControl \<times> ControlResultBuilder" where
  "validateAndAddActs c input rb act =
     (let c1 = c\<lparr>state := (state c)\<lparr>elicitationAction := Some act\<rparr>\<rparr> in
      case evaluateValidationProp (validation (props c1)) (state c1) input of
        ValidationTrue \<Rightarrow>
          if act = Action_Change then
            (case previousValue (state c1) of
               Some pv \<Rightarrow>
                 (Inr (), c1,
                  addAct (ValueChangedAct (id' (props c1)) pv
                            (valueRenderer (props c1) (Some pv) input)
                            (value' (state c1))
                            (valueRenderer (props c1) (value' (state c1)) input)) rb)
             | None \<Rightarrow>
                 (Inl (Error ''ValueChangedAct should only be used if there is an actual previous value''),
                  c1, rb))
          else
            (Inr (), c1,
             addAct (ValueSetAct (id' (props c1)) (value' (state c1))
                       (valueRenderer (props c1) (value' (state c1)) input)) rb)
      | ValidationFailed r \<Rightarrow>
          askElicitationQuestion c1 input
            (addAct (InvalidValueAct (id' (props c1)) (value' (state c1))
                       (valueRenderer (props c1) (value' (state c1)) input)
                       (reasonCode r) (renderedReason r)) rb)
            act)"

subsection \<open>The handlers\<close>

text \<open>
  A handler that throws keeps what it has assigned before: \<^verbatim>\<open>handleConfirmationDisaffirmed\<close>
  clears the confirmation flag and only then writes \<^verbatim>\<open>lastInitiative.actName\<close>.
\<close>

definition handleSetWithValue ::
  "ValueControl \<Rightarrow> ControlInput \<Rightarrow> ControlResultBuilder
     \<Rightarrow> (error + unit) \<times> ValueControl \<times> ControlResultBuilder" where
  "handleSetWithValue c input rb =
     (case getValueResolution input of
        Inl e \<Rightarrow> (Inl e, c, rb)
      | Inr (v, er) \<Rightarrow> validateAndAddActs (setValue v er c) input rb Action_Set)"

definition handleSetWithoutValue ::
  "ValueControl \<Rightarrow> ControlInput \<Rightarrow> ControlResultBuilder
     \<Rightarrow> (error + unit) \<times> ValueControl \<times> ControlResultBuilder" where
  "handleSetWithoutValue c input rb = askElicitationQuestion c input rb Action_Set"

definition handleChangeWithValue ::
  "ValueControl \<Rightarrow> ControlInput \<Rightarrow> ControlResultBuilder
     \<Rightarrow> (error + unit) \<times> ValueControl \<times> ControlResultBuilder" where
  "handleChangeWithValue c input rb =
     (case getValueResolution input of
        Inl e \<Rightarrow> (Inl e, c, rb)
      | Inr (v, er) \<Rightarrow> validateAndAddActs (setValue v er c) input rb Action_Change)"

definition handleChangeWithoutValue ::
  "ValueControl \<Rightarrow> ControlInput \<Rightarrow> ControlResultBuilder
     \<Rightarrow> (error + unit) \<times> ValueControl \<times> ControlResultBuilder" where
  "handleChangeWithoutValue c input rb = askElicitationQuestion c input rb Action_Change"

text \<open>\<^verbatim>\<open>this.state.elicitationAction ?? $.Action.Set\<close> is read after \<^verbatim>\<open>setValue\<close> has run.\<close>

definition handleBareValue ::
  "ValueControl \<Rightarrow> ControlInput \<Rightarrow> ControlResultBuilder
     \<Rightarrow> (error + unit) \<times> ValueControl \<times> ControlResultBuilder" where
  "handleBareValue c input rb =
     (case getValueResolution input of
        Inl e \<Rightarrow> (Inl e, c, rb)
      | Inr (v, er) \<Rightarrow>
          (let c1 = setValue v er c in
           validateAndAddActs c1 input rb
             (case elicitationAction (state c1) of None \<Rightarrow> Action_Set | Some a \<Rightarrow> a)))"

definition handleConfirmationAffirmed ::
  "ValueControl \<Rightarrow> ControlInput \<Rightarrow> ControlResultBuilder
     \<Rightarrow> (error + unit) \<times> ValueControl \<times> ControlResultBuilder" where
  "handleConfirmationAffirmed c input rb =
     (case lastInitiativeOf (state c) of
        Inl e \<Rightarrow> (Inl e, c, rb)
      | Inr li \<Rightarrow>
          (let c1 = c\<lparr>state := (state c)\<lparr>
                       lastInitiative := Some (li\<lparr>actName := None\<rparr>),
                       isValueConfirmed := True\<rparr>\<rparr> in
           (Inr (), c1,
            addAct (ValueConfirmedAct (id' (props c1)) (value' (state c1))
                      (valueRenderer (props c1) (value' (state c1)) input)) rb)))"

definition handleConfirmationDisaffirmed ::
  "ValueControl \<Rightarrow> ControlInput \<Rightarrow> ControlResultBuilder
     \<Rightarrow> (error + unit) \<times> ValueControl \<times> ControlResultBuilder" where
  "handleConfirmationDisaffirmed c input rb =
     (let c0 = c\<lparr>state := (state c)\<lparr>isValueConfirmed := False\<rparr>\<rparr> in
      case lastInitiativeOf (state c0) of
        Inl e \<Rightarrow> (Inl e, c0, rb)
      | Inr li \<Rightarrow>
          (let c1 = c0\<lparr>state := (state c0)\<lparr>lastInitiative := Some (li\<lparr>actName := None\<rparr>)\<rparr>\<rparr> in
           (Inr (), c1,
            addAct (RequestValueAct (id' (props c1)))
              (addAct (ValueDisconfirmedAct (id' (props c1)) (value' (state c1))
                         (valueRenderer (props c1) (value' (state c1)) input)) rb))))"

subsection \<open>Initiative\<close>

definition wantsToConfirmValue :: "ValueControl \<Rightarrow> ControlInput \<Rightarrow> bool \<times> ValueControl" where
  "wantsToConfirmValue c input =
     (if value' (state c) \<noteq> None \<and> isValueConfirmed (state c) = False
         \<and> evaluateBooleanProp (confirmationRequired (props c)) input
      then (True, c\<lparr>initiativeFunc := Some Fn_confirmValue\<rparr>)
      else (False, c))"

definition confirmValue ::
  "ValueControl \<Rightarrow> ControlInput \<Rightarrow> ControlResultBuilder
     \<Rightarrow> (error + unit) \<times> ValueControl \<times> ControlResultBuilder" where
  "confirmValue c input rb =
     (case lastInitiativeOf (state c) of
        Inl e \<Rightarrow> (Inl e, c, rb)
      | Inr li \<Rightarrow>
          (let c1 = c\<lparr>state := (state c)\<lparr>
                       lastInitiative := Some (li\<lparr>actName := Some ConfirmValueAct_name\<rparr>)\<rparr>\<rparr> in
           (Inr (), c1,
            addAct (ConfirmValueAct (id' (props c1)) (value' (state c1))
                      (valueRenderer (props c1) (value' (state c1)) input)) rb)))"

definition wantsToFixInvalidValue :: "ValueControl \<Rightarrow> ControlInput \<Rightarrow> bool \<times> ValueControl" where
  "wantsToFixInvalidValue c input =
     (if value' (state c) \<noteq> None
         \<and> evaluateValidationProp (validation (props c)) (state c) input \<noteq> ValidationTrue
      then (True, c\<lparr>initiativeFunc := Some Fn_fixInvalidValue\<rparr>)
      else (False, c))"

definition fixInvalidValue ::
  "ValueControl \<Rightarrow> ControlInput \<Rightarrow> ControlResultBuilder
     \<Rightarrow> (error + unit) \<times> ValueControl \<times> ControlResultBuilder" where
  "fixInvalidValue c input rb = validateAndAddActs c input rb Action_Change"

definition wantsToElicitValue :: "ValueControl \<Rightarrow> ControlInput \<Rightarrow> bool \<times> ValueControl" where
  "wantsToElicitValue c input =
     (if value' (state c) = None \<and> evaluateBooleanProp (required (props c)) input
      then (True, c\<lparr>initiativeFunc := Some Fn_elicitValue\<rparr>)
      else (False, c))"

definition elicitValue ::
  "ValueControl \<Rightarrow> ControlInput \<Rightarrow> ControlResultBuilder
     \<Rightarrow> (error + unit) \<times> ValueControl \<times> ControlResultBuilder" where
  "elicitValue c input rb = askElicitationQuestion c input rb Action_Set"

text \<open>\<^verbatim>\<open>a || b || c\<close>: the next operand is evaluated only when the one before it is false.\<close>

definition canTakeInitiative :: "ValueControl \<Rightarrow> ControlInput \<Rightarrow> bool \<times> ValueControl" where
  "canTakeInitiative c input =
     (case wantsToConfirmValue c input of
        (True, c1) \<Rightarrow> (True, c1)
      | (False, c1) \<Rightarrow>
          (case wantsToFixInvalidValue c1 input of
             (True, c2) \<Rightarrow> (True, c2)
           | (False, c2) \<Rightarrow> wantsToElicitValue c2 input))"

fun callInitiativeFunc ::
  "InitiativeFunc \<Rightarrow> ValueControl \<Rightarrow> ControlInput \<Rightarrow> ControlResultBuilder
     \<Rightarrow> (error + unit) \<times> ValueControl \<times> ControlResultBuilder" where
  "callInitiativeFunc Fn_confirmValue c input rb = confirmValue c input rb"
| "callInitiativeFunc Fn_fixInvalidValue c input rb = fixInvalidValue c input rb"
| "callInitiativeFunc Fn_elicitValue c input rb = elicitValue c input rb"

definition takeInitiative ::
  "ValueControl \<Rightarrow> ControlInput \<Rightarrow> ControlResultBuilder
     \<Rightarrow> (error + unit) \<times> ValueControl \<times> ControlResultBuilder" where
  "takeInitiative c input rb =
     (case initiativeFunc c of
        None \<Rightarrow>
          (Inl (Error ''ValueControl: takeInitiative called but this.initiativeFunc is not set. canTakeInitiative() should be called first to set this.initiativeFunc.''),
           c, rb)
      | Some f \<Rightarrow> callInitiativeFunc f c input rb)"

subsection \<open>canHandle and handle\<close>

text \<open>An entry of a handler list: its name, its predicate and the function it selects.\<close>

type_synonym InputHandlerEntry =
  "string \<times> (ValueControl \<Rightarrow> ControlInput \<Rightarrow> (error + bool) \<times> ValueControl) \<times> HandleFunc"

definition standardInputHandlers :: "InputHandlerEntry list" where
  "standardInputHandlers =
     [ (''SetWithValue (built-in)'', isSetWithValue, Fn_handleSetWithValue),
       (''ChangeWithValue (built-in)'', isChangeWithValue, Fn_handleChangeWithValue),
       (''SetWithoutValue (built-in)'', isSetWithoutValue, Fn_handleSetWithoutValue),
       (''ChangeWithoutValue (built-in)'', isChangeWithoutValue, Fn_handleChangeWithoutValue),
       (''isBareValue (built-in)'', isBareValue, Fn_handleBareValue),
       (''ConfirmationAffirmed (built-in)'', isConfirmationAffirmed, Fn_handleConfirmationAffirmed),
       (''ConfirmationDisaffirmed (built-in)'', isConfirmationDisaffirmed, Fn_handleConfirmationDisaffirmed) ]"

definition customInputHandler :: "ControlInputHandler \<Rightarrow> InputHandlerEntry" where
  "customInputHandler h =
     (handlerName h, (\<lambda>c input. (handlerCanHandle h (state c) input, c)), Fn_custom (handlerHandle h))"

text \<open>
  Modelled from the spec: \<^verbatim>\<open>evaluateInputHandlers\<close> (\<^verbatim>\<open>utils/ControlUtils\<close>) is not among the
  sources. The spec: every predicate of the control's handler list is evaluated, the
  built-in handlers before the custom ones and each group in registration order; when
  several match, the first one is selected (and all of them are named in a log entry); the
  selected handler is what \<^verbatim>\<open>handle\<close> runs. The test \<^verbatim>\<open>Check conflicts in canHandle\<close> shows
  the same.
\<close>

fun matchingHandlers ::
  "InputHandlerEntry list \<Rightarrow> ValueControl \<Rightarrow> ControlInput \<Rightarrow> (error + HandleFunc list) \<times> ValueControl" where
  "matchingHandlers [] c input = (Inr [], c)"
| "matchingHandlers ((nm, can, h) # hs) c input =
     (case can c input of
        (Inl e, c1) \<Rightarrow> (Inl e, c1)
      | (Inr b, c1) \<Rightarrow>
          (case matchingHandlers hs c1 input of
             (Inl e, c2) \<Rightarrow> (Inl e, c2)
           | (Inr ms, c2) \<Rightarrow> (Inr (if b then h # ms else ms), c2)))"

definition evaluateInputHandlers :: "ValueControl \<Rightarrow> ControlInput \<Rightarrow> (error + bool) \<times> ValueControl" where
  "evaluateInputHandlers c input =
     (case matchingHandlers
             (standardInputHandlers @ map customInputHandler (customHandlingFuncs (props c))) c input of
        (Inl e, c1) \<Rightarrow> (Inl e, c1)
      | (Inr [], c1) \<Rightarrow> (Inr False, c1)
      | (Inr (h # _), c1) \<Rightarrow> (Inr True, c1\<lparr>handleFunc := Some h\<rparr>))"

definition canHandle :: "ValueControl \<Rightarrow> ControlInput \<Rightarrow> (error + bool) \<times> ValueControl" where
  "canHandle c input = evaluateInputHandlers c input"

fun callHandleFunc ::
  "HandleFunc \<Rightarrow> ValueControl \<Rightarrow> ControlInput \<Rightarrow> ControlResultBuilder
     \<Rightarrow> (error + unit) \<times> ValueControl \<times> ControlResultBuilder" where
  "callHandleFunc Fn_handleSetWithValue c input rb = handleSetWithValue c input rb"
| "callHandleFunc Fn_handleChangeWithValue c input rb = handleChangeWithValue c input rb"
| "callHandleFunc Fn_handleSetWithoutValue c input rb = handleSetWithoutValue c input rb"
| "callHandleFunc Fn_handleChangeWithoutValue c input rb = handleChangeWithoutValue c input rb"
| "callHandleFunc Fn_handleBareValue c input rb = handleBareValue c input rb"
| "callHandleFunc Fn_handleConfirmationAffirmed c input rb = handleConfirmationAffirmed c input rb"
| "callHandleFunc Fn_handleConfirmationDisaffirmed c input rb = handleConfirmationDisaffirmed c input rb"
| "callHandleFunc (Fn_custom eff) c input rb =
     (case eff input (state c) rb of (r, s1, rb1) \<Rightarrow> (r, c\<lparr>state := s1\<rparr>, rb1))"

text \<open>
  With \<^verbatim>\<open>handleFunc\<close> undefined, \<^verbatim>\<open>handle\<close> reads the intent's name for its message (a
  \<^verbatim>\<open>TypeError\<close> when the request has no intent) and throws. Otherwise it runs the selected
  function and then, when the result has no initiative act and \<^verbatim>\<open>canTakeInitiative\<close> is
  true, \<^verbatim>\<open>takeInitiative\<close>.
\<close>

definition handle ::
  "ValueControl \<Rightarrow> ControlInput \<Rightarrow> ControlResultBuilder
     \<Rightarrow> (error + unit) \<times> ValueControl \<times> ControlResultBuilder" where
  "handle c input rb =
     (case handleFunc c of
        None \<Rightarrow>
          (case intentOf input of
             Inl e \<Rightarrow> (Inl e, c, rb)
           | Inr it \<Rightarrow> (Inl (Error (name it @ '' can not be handled by ValueControl.'')), c, rb))
      | Some h \<Rightarrow>
          (case callHandleFunc h c input rb of
             (Inl e, c1, rb1) \<Rightarrow> (Inl e, c1, rb1)
           | (Inr u, c1, rb1) \<Rightarrow>
               if \<not> hasInitiativeAct rb1 then
                 (case canTakeInitiative c1 input of
                    (True, c2) \<Rightarrow> takeInitiative c2 input rb1
                  | (False, c2) \<Rightarrow> (Inr (), c2, rb1))
               else (Inr (), c1, rb1)))"

section \<open>Example controls and inputs\<close>

text \<open>
  A control like the one of the test suite's \<^verbatim>\<open>Custom List APL Props\<close>: its validation
  accepts three houses. A first validation function tests \<^verbatim>\<open>this.state.erMatch\<close>, as the
  doc comment of \<^verbatim>\<open>slotType\<close> suggests. Confirmation is required.
\<close>

definition erMatchValidation :: StateValidationFunction where
  "erMatchValidation s input =
     (if erMatch s = Some True then ValidationTrue
      else ValidationFailed \<lparr>reasonCode = Some ''NoMatch'', renderedReason = None\<rparr>)"

definition houseValidation :: StateValidationFunction where
  "houseValidation s input =
     (case value' s of
        None \<Rightarrow>
          ValidationFailed \<lparr>reasonCode = None, renderedReason = Some ''houseControl validation Failed''\<rparr>
      | Some v \<Rightarrow>
          if v \<in> set [''Gryffindor'', ''Ravenclaw'', ''Slytherin''] then ValidationTrue
          else ValidationFailed \<lparr>reasonCode = None, renderedReason = Some ''houseControl validation Failed''\<rparr>)"

definition houseProps :: ValueControlProps where
  "houseProps =
     \<lparr> raw_id = ''hogwarts'', raw_slotType = ''hogwartsHouse'',
       raw_validation = Some (ValidationList [erMatchValidation, houseValidation]),
       raw_required = None, raw_confirmationRequired = Some (BooleanValue True),
       raw_targets = None, raw_actions_set = None, raw_actions_change = None,
       raw_customHandlingFuncs = None, raw_valueRenderer = None \<rparr>"

definition searchQueryProps :: ValueControlProps where
  "searchQueryProps = houseProps\<lparr>raw_slotType := ''AMAZON.SearchQuery''\<rparr>"

text \<open>The control that \<^verbatim>\<open>new ValueControl(houseProps)\<close> builds.\<close>

definition houseControl :: ValueControl where
  "houseControl =
     \<lparr> props = mergeWithDefaultProps houseProps, state = initialState,
       handleFunc = None, initiativeFunc = None \<rparr>"

text \<open>
  The same control at the start of a later turn, its state the one that the input
  ``set the house to Muggle'' left behind: a value that fails the validation.
\<close>

definition muggleState :: ValueControlState where
  "muggleState =
     \<lparr> value' = Some ''Muggle'', erMatch = Some True, elicitationAction = Some ''builtin_set'',
       isValueConfirmed = False, previousValue = None,
       lastInitiative = Some \<lparr>actName = None\<rparr> \<rparr>"

definition muggleControl :: ValueControl where
  "muggleControl = houseControl\<lparr>state := muggleState\<rparr>"

text \<open>The control after ``set the house to Ravenclaw'', waiting for the answer to its confirmation question.\<close>

definition ravenclawState :: ValueControlState where
  "ravenclawState =
     \<lparr> value' = Some ''Ravenclaw'', erMatch = Some True, elicitationAction = Some ''builtin_set'',
       isValueConfirmed = False, previousValue = None,
       lastInitiative = Some \<lparr>actName = Some ''ConfirmValueAct''\<rparr> \<rparr>"

definition ravenclawControl :: ValueControl where
  "ravenclawControl = houseControl\<lparr>state := ravenclawState\<rparr>"

text \<open>The inputs: a value with or without an action, an intent without slots, a launch.\<close>

definition valueInput :: "string option \<Rightarrow> string \<Rightarrow> bool \<Rightarrow> ControlInput" where
  "valueInput a v er =
     \<lparr> request = IntentRequest
         \<lparr> name = ''hogwartsHouse_ValueControlIntent'', feedback = None, action = a,
           target = None,
           values' = [\<lparr> slotValue = Some v, isEntityResolutionMatch = Some er \<rparr>],
           valueType = Some ''hogwartsHouse'' \<rparr> \<rparr>"

definition plainIntent :: "string \<Rightarrow> ControlInput" where
  "plainIntent nm =
     \<lparr> request = IntentRequest
         \<lparr> name = nm, feedback = None, action = None, target = None, values' = [],
           valueType = None \<rparr> \<rparr>"

definition launchInput :: ControlInput where
  "launchInput = \<lparr> request = LaunchRequest \<rparr>"

definition emptyResult :: ControlResultBuilder where
  "emptyResult = \<lparr> acts = [] \<rparr>"

text \<open>A custom handler's function: it asks for the value again and leaves the state alone.\<close>

definition askAgain :: HandlerEffect where
  "askAgain input s rb = (Inr (), s, addAct (RequestValueAct ''hogwarts'') rb)"

section \<open>Auxiliary notions\<close>

text \<open>The values of \<^verbatim>\<open>state.elicitationAction\<close> that the control itself writes, or none.\<close>

definition knownAction :: "string option \<Rightarrow> bool" where
  "knownAction a = (a = None \<or> a = Some Action_Set \<or> a = Some Action_Change)"

text \<open>
  A predicate leaves \<^verbatim>\<open>handleFunc\<close> as it is (\<open>None\<close>) or overwrites it (\<open>Some h\<close>);
  \<open>selects w x\<close> is the field afterwards when it held \<open>x\<close> before.
\<close>

definition selects :: "HandleFunc option \<Rightarrow> HandleFunc option \<Rightarrow> HandleFunc option" where
  "selects w x = (case w of None \<Rightarrow> x | Some h \<Rightarrow> Some h)"

section \<open>Properties\<close>

subsection \<open>What each method appends to the result\<close>

lemma Action_Set_not_Change: "Action_Set \<noteq> Action_Change"
  by (simp add: Action_Set_def Action_Change_def)

lemma askElicitationQuestion_appends:
  "askElicitationQuestion c input rb act = (r, c1, rb1) \<Longrightarrow>
     \<exists>new. acts rb1 = acts rb @ new \<and> length (filter takesInitiative new) \<le> 1
       \<and> \<not> list_ex isConfirmValueAct new \<and> \<not> list_ex isValueChangedAct new"
  by (auto simp: askElicitationQuestion_def Let_def addAct_def split: if_splits)

lemma validateAndAddActs_appends:
  "validateAndAddActs c input rb act = (r, c1, rb1) \<Longrightarrow>
     \<exists>new. acts rb1 = acts rb @ new \<and> length (filter takesInitiative new) \<le> 1
       \<and> \<not> list_ex isConfirmValueAct new"
  by (auto simp: validateAndAddActs_def askElicitationQuestion_def Let_def addAct_def
        split: if_splits ValidationResult.splits option.splits)

lemma handleSetWithValue_appends:
  "handleSetWithValue c input rb = (r, c1, rb1) \<Longrightarrow>
     \<exists>new. acts rb1 = acts rb @ new \<and> length (filter takesInitiative new) \<le> 1"
  by (auto simp: handleSetWithValue_def split: sum.splits dest: validateAndAddActs_appends)

lemma handleChangeWithValue_appends:
  "handleChangeWithValue c input rb = (r, c1, rb1) \<Longrightarrow>
     \<exists>new. acts rb1 = acts rb @ new \<and> length (filter takesInitiative new) \<le> 1"
  by (auto simp: handleChangeWithValue_def split: sum.splits dest: validateAndAddActs_appends)

lemma handleBareValue_appends:
  "handleBareValue c input rb = (r, c1, rb1) \<Longrightarrow>
     \<exists>new. acts rb1 = acts rb @ new \<and> length (filter takesInitiative new) \<le> 1"
  by (auto simp: handleBareValue_def Let_def split: sum.splits dest: validateAndAddActs_appends)

lemma handleSetWithoutValue_appends:
  "handleSetWithoutValue c input rb = (r, c1, rb1) \<Longrightarrow>
     \<exists>new. acts rb1 = acts rb @ new \<and> length (filter takesInitiative new) \<le> 1"
  by (auto simp: handleSetWithoutValue_def dest: askElicitationQuestion_appends)

lemma handleChangeWithoutValue_appends:
  "handleChangeWithoutValue c input rb = (r, c1, rb1) \<Longrightarrow>
     \<exists>new. acts rb1 = acts rb @ new \<and> length (filter takesInitiative new) \<le> 1"
  by (auto simp: handleChangeWithoutValue_def dest: askElicitationQuestion_appends)

lemma handleConfirmationAffirmed_appends:
  "handleConfirmationAffirmed c input rb = (r, c1, rb1) \<Longrightarrow>
     \<exists>new. acts rb1 = acts rb @ new \<and> length (filter takesInitiative new) \<le> 1"
  by (auto simp: handleConfirmationAffirmed_def Let_def addAct_def split: sum.splits)

lemma handleConfirmationDisaffirmed_appends:
  "handleConfirmationDisaffirmed c input rb = (r, c1, rb1) \<Longrightarrow>
     \<exists>new. acts rb1 = acts rb @ new \<and> length (filter takesInitiative new) \<le> 1"
  by (auto simp: handleConfirmationDisaffirmed_def Let_def addAct_def split: sum.splits)

lemma takeInitiative_appends:
  assumes t: "takeInitiative c input rb = (r, c1, rb1)"
  shows "\<exists>new. acts rb1 = acts rb @ new \<and> length (filter takesInitiative new) \<le> 1"
proof (cases "initiativeFunc c")
  case None
  with t show ?thesis by (simp add: takeInitiative_def)
next
  case (Some f)
  show ?thesis
  proof (cases f)
    case Fn_confirmValue
    with Some t show ?thesis
      by (auto simp: takeInitiative_def confirmValue_def Let_def addAct_def split: sum.splits)
  next
    case Fn_fixInvalidValue
    with Some t have "validateAndAddActs c input rb Action_Change = (r, c1, rb1)"
      by (simp add: takeInitiative_def fixInvalidValue_def)
    from validateAndAddActs_appends [OF this] show ?thesis by blast
  next
    case Fn_elicitValue
    with Some t have "askElicitationQuestion c input rb Action_Set = (r, c1, rb1)"
      by (simp add: takeInitiative_def elicitValue_def)
    from askElicitationQuestion_appends [OF this] show ?thesis by blast
  qed
qed

lemma callHandleFunc_appends:
  assumes call: "callHandleFunc h c input rb = (r, c1, rb1)"
    and cust: "\<And>eff. h = Fn_custom eff \<Longrightarrow>
           \<exists>new. acts (snd (snd (eff input (state c) rb))) = acts rb @ new
                 \<and> length (filter takesInitiative new) \<le> 1"
  shows "\<exists>new. acts rb1 = acts rb @ new \<and> length (filter takesInitiative new) \<le> 1"
proof (cases h)
  case (Fn_custom eff)
  with call have "rb1 = snd (snd (eff input (state c) rb))"
    by (auto split: prod.splits)
  with cust [OF Fn_custom] show ?thesis by simp
qed (use call in \<open>auto dest: handleSetWithValue_appends handleChangeWithValue_appends
       handleSetWithoutValue_appends handleChangeWithoutValue_appends handleBareValue_appends
       handleConfirmationAffirmed_appends handleConfirmationDisaffirmed_appends\<close>)

lemma no_initiative_in_suffix:
  "acts rb1 = acts rb @ new \<Longrightarrow> \<not> hasInitiativeAct rb1 \<Longrightarrow> filter takesInitiative new = []"
  by (auto simp: hasInitiativeAct_def list_ex_iff filter_empty_conv)

lemma handle_appends:
  assumes h: "handle c input rb = (r, c', rb')"
    and cust: "\<And>eff. handleFunc c = Some (Fn_custom eff) \<Longrightarrow>
           \<exists>new. acts (snd (snd (eff input (state c) rb))) = acts rb @ new
                 \<and> length (filter takesInitiative new) \<le> 1"
  shows "\<exists>new. acts rb' = acts rb @ new \<and> length (filter takesInitiative new) \<le> 1"
proof (cases "handleFunc c")
  case None
  with h have "rb' = rb" by (auto simp: handle_def split: sum.splits)
  then show ?thesis by simp
next
  case (Some hf)
  obtain r1 c1 rb1 where call: "callHandleFunc hf c input rb = (r1, c1, rb1)"
    by (cases "callHandleFunc hf c input rb") auto
  have cust1: "\<And>eff. hf = Fn_custom eff \<Longrightarrow>
           \<exists>new. acts (snd (snd (eff input (state c) rb))) = acts rb @ new
                 \<and> length (filter takesInitiative new) \<le> 1"
    using cust Some by simp
  have "\<exists>new. acts rb1 = acts rb @ new \<and> length (filter takesInitiative new) \<le> 1"
    by (rule callHandleFunc_appends [OF call]) (rule cust1)
  then obtain new1 where n1: "acts rb1 = acts rb @ new1" "length (filter takesInitiative new1) \<le> 1"
    by blast
  show ?thesis
  proof (cases "(\<exists>u. r1 = Inr u) \<and> \<not> hasInitiativeAct rb1 \<and> fst (canTakeInitiative c1 input)")
    case False
    with h Some call have "rb' = rb1"
      by (auto simp: handle_def split: sum.splits if_splits prod.splits bool.splits)
    with n1 show ?thesis by simp
  next
    case True
    then obtain c2 where ct: "canTakeInitiative c1 input = (True, c2)"
      by (cases "canTakeInitiative c1 input") auto
    from True h Some call ct have "takeInitiative c2 input rb1 = (r, c', rb')"
      by (auto simp: handle_def)
    from takeInitiative_appends [OF this]
    obtain new2 where n2: "acts rb' = acts rb1 @ new2" "length (filter takesInitiative new2) \<le> 1"
      by blast
    from True n1 have "filter takesInitiative new1 = []"
      by (simp add: no_initiative_in_suffix)
    with n1 n2 have "acts rb' = acts rb @ (new1 @ new2)
        \<and> length (filter takesInitiative (new1 @ new2)) \<le> 1"
      by simp
    then show ?thesis by blast
  qed
qed

lemma handle_skips_initiative:
  assumes "handleFunc c = Some h" and "callHandleFunc h c input rb = (Inr u, c2, rb2)"
    and "hasInitiativeAct rb2"
  shows "handle c input rb = (Inr (), c2, rb2)"
  using assms by (simp add: handle_def)

subsection \<open>The predicates do not depend on the handler selected before\<close>

lemma falseIfGuardFailed_not_True: "falseIfGuardFailed e \<noteq> Inr True"
  by (simp add: falseIfGuardFailed_def)

lemma standard_stable:
  assumes "(nm, can, h) \<in> set standardInputHandlers"
  shows "\<exists>r w. \<forall>x. can (c\<lparr>handleFunc := x\<rparr>) input = (r, c\<lparr>handleFunc := selects w x\<rparr>)
           \<and> (w = None \<or> r = Inr True)"
proof -
  let ?r = "fst (can c input)"
  let ?w = "if ?r = Inr True then Some h else None"
  from assms consider
      "can = isSetWithValue" "h = Fn_handleSetWithValue"
    | "can = isChangeWithValue" "h = Fn_handleChangeWithValue"
    | "can = isSetWithoutValue" "h = Fn_handleSetWithoutValue"
    | "can = isChangeWithoutValue" "h = Fn_handleChangeWithoutValue"
    | "can = isBareValue" "h = Fn_handleBareValue"
    | "can = isConfirmationAffirmed" "h = Fn_handleConfirmationAffirmed"
    | "can = isConfirmationDisaffirmed" "h = Fn_handleConfirmationDisaffirmed"
    by (auto simp: standardInputHandlers_def)
  then have "\<forall>x. can (c\<lparr>handleFunc := x\<rparr>) input = (?r, c\<lparr>handleFunc := selects ?w x\<rparr>)
           \<and> (?w = None \<or> ?r = Inr True)"
  proof cases
    case 1 then show ?thesis
      by (simp add: isSetWithValue_def selects_def falseIfGuardFailed_not_True split: sum.split)
  next
    case 2 then show ?thesis
      by (simp add: isChangeWithValue_def selects_def falseIfGuardFailed_not_True split: sum.split)
  next
    case 3 then show ?thesis
      by (simp add: isSetWithoutValue_def selects_def falseIfGuardFailed_not_True split: sum.split)
  next
    case 4 then show ?thesis
      by (simp add: isChangeWithoutValue_def selects_def falseIfGuardFailed_not_True split: sum.split)
  next
    case 5 then show ?thesis
      by (simp add: isBareValue_def selects_def falseIfGuardFailed_not_True split: sum.split)
  next
    case 6 then show ?thesis
      by (simp add: isConfirmationAffirmed_def selects_def falseIfGuardFailed_not_True split: sum.split)
  next
    case 7 then show ?thesis
      by (simp add: isConfirmationDisaffirmed_def selects_def falseIfGuardFailed_not_True split: sum.split)
  qed
  then show ?thesis by blast
qed

lemma custom_stable:
  assumes "(nm, can, h) \<in> set (map customInputHandler hs)"
  shows "\<exists>r w. \<forall>x. can (c\<lparr>handleFunc := x\<rparr>) input = (r, c\<lparr>handleFunc := selects w x\<rparr>)
           \<and> (w = None \<or> r = Inr True)"
proof -
  from assms obtain k where "(nm, can, h) = customInputHandler k"
    by auto
  then have "can = (\<lambda>c input. (handlerCanHandle k (state c) input, c))"
    by (simp add: customInputHandler_def)
  then have "\<forall>x. can (c\<lparr>handleFunc := x\<rparr>) input
               = (handlerCanHandle k (state c) input, c\<lparr>handleFunc := selects None x\<rparr>)
             \<and> ((None :: HandleFunc option) = None \<or> handlerCanHandle k (state c) input = Inr True)"
    by (simp add: selects_def)
  then show ?thesis by blast
qed

lemma matchingHandlers_stable:
  assumes "\<And>nm can h c. (nm, can, h) \<in> set hs \<Longrightarrow>
             \<exists>r w. \<forall>x. can (c\<lparr>handleFunc := x\<rparr>) input = (r, c\<lparr>handleFunc := selects w x\<rparr>)
                  \<and> (w = None \<or> r = Inr True)"
  shows "\<exists>r w. \<forall>x. matchingHandlers hs (c\<lparr>handleFunc := x\<rparr>) input = (r, c\<lparr>handleFunc := selects w x\<rparr>)
            \<and> (w = None \<or> r \<noteq> Inr [])"
  using assms
proof (induction hs)
  case Nil
  have "\<forall>x. matchingHandlers [] (c\<lparr>handleFunc := x\<rparr>) input = (Inr [], c\<lparr>handleFunc := selects None x\<rparr>)"
    by (simp add: selects_def)
  then show ?case by blast
next
  case (Cons e hs)
  obtain nm can h where e: "e = (nm, can, h)" by (cases e) auto
  from Cons.prems [of nm can h c] e obtain r1 w1 where
    can: "\<forall>x. can (c\<lparr>handleFunc := x\<rparr>) input = (r1, c\<lparr>handleFunc := selects w1 x\<rparr>)"
    and hon1: "w1 = None \<or> r1 = Inr True"
    by auto
  from Cons.IH Cons.prems obtain r2 w2 where
    rest: "\<forall>x. matchingHandlers hs (c\<lparr>handleFunc := x\<rparr>) input = (r2, c\<lparr>handleFunc := selects w2 x\<rparr>)"
    and hon2: "w2 = None \<or> r2 \<noteq> Inr []"
    by (metis list.set_intros(2))
  show ?case
  proof (cases r1)
    case (Inl err)
    with can e hon1 have "\<forall>x. matchingHandlers (e # hs) (c\<lparr>handleFunc := x\<rparr>) input
        = (Inl err, c\<lparr>handleFunc := selects w1 x\<rparr>)"
      by simp
    then show ?thesis by blast
  next
    case (Inr b)
    let ?w = "selects w2 w1"
    have sel: "\<And>x. selects w2 (selects w1 x) = selects ?w x"
      by (simp add: selects_def split: option.splits)
    let ?r = "case r2 of Inl err \<Rightarrow> Inl err | Inr ms \<Rightarrow> Inr (if b then h # ms else ms)"
    from can rest e Inr have
      "\<forall>x. matchingHandlers (e # hs) (c\<lparr>handleFunc := x\<rparr>) input = (?r, c\<lparr>handleFunc := selects ?w x\<rparr>)"
      by (simp add: sel split: sum.splits)
    moreover have "?w = None \<or> ?r \<noteq> Inr []"
      using hon1 hon2 Inr by (auto simp: selects_def split: option.splits sum.splits)
    ultimately show ?thesis by blast
  qed
qed

lemma evaluateInputHandlers_stable:
  "\<exists>r w. \<forall>x. evaluateInputHandlers (c\<lparr>handleFunc := x\<rparr>) input = (r, c\<lparr>handleFunc := selects w x\<rparr>)
           \<and> (w = None \<or> r \<noteq> Inr False)"
proof -
  let ?hs = "standardInputHandlers @ map customInputHandler (customHandlingFuncs (props c))"
  have "\<And>nm can h c. (nm, can, h) \<in> set ?hs \<Longrightarrow>
             \<exists>r w. \<forall>x. can (c\<lparr>handleFunc := x\<rparr>) input = (r, c\<lparr>handleFunc := selects w x\<rparr>)
                  \<and> (w = None \<or> r = Inr True)"
    using standard_stable custom_stable by (metis Un_iff set_append)
  then have "\<exists>r w. \<forall>x. matchingHandlers ?hs (c\<lparr>handleFunc := x\<rparr>) input = (r, c\<lparr>handleFunc := selects w x\<rparr>)
            \<and> (w = None \<or> r \<noteq> Inr [])"
    by (rule matchingHandlers_stable)
  then obtain r w where
    m: "\<forall>x. matchingHandlers ?hs (c\<lparr>handleFunc := x\<rparr>) input = (r, c\<lparr>handleFunc := selects w x\<rparr>)"
    and hon: "w = None \<or> r \<noteq> Inr []"
    by blast
  show ?thesis
  proof (cases r)
    case (Inl e)
    with m have "\<forall>x. evaluateInputHandlers (c\<lparr>handleFunc := x\<rparr>) input
        = (Inl e, c\<lparr>handleFunc := selects w x\<rparr>)"
      by (simp add: evaluateInputHandlers_def)
    then show ?thesis by blast
  next
    case (Inr ms)
    show ?thesis
    proof (cases ms)
      case Nil
      with Inr hon have "w = None" by simp
      with m Inr Nil have "\<forall>x. evaluateInputHandlers (c\<lparr>handleFunc := x\<rparr>) input
          = (Inr False, c\<lparr>handleFunc := selects None x\<rparr>)"
        by (simp add: evaluateInputHandlers_def)
      then show ?thesis by blast
    next
      case (Cons h rest)
      with m Inr have "\<forall>x. evaluateInputHandlers (c\<lparr>handleFunc := x\<rparr>) input
          = (Inr True, c\<lparr>handleFunc := selects (Some h) x\<rparr>)"
        by (simp add: evaluateInputHandlers_def selects_def)
      then show ?thesis by blast
    qed
  qed
qed

lemma canHandle_twice:
  assumes "canHandle c input = (r, c1)"
  shows "canHandle c1 input = (r, c1) \<and> state c1 = state c \<and> props c1 = props c
         \<and> initiativeFunc c1 = initiativeFunc c"
proof -
  from evaluateInputHandlers_stable [of c input] obtain r0 w where
    st: "\<forall>x. evaluateInputHandlers (c\<lparr>handleFunc := x\<rparr>) input = (r0, c\<lparr>handleFunc := selects w x\<rparr>)"
    by blast
  have "c\<lparr>handleFunc := handleFunc c\<rparr> = c" by simp
  with st have "evaluateInputHandlers c input = (r0, c\<lparr>handleFunc := selects w (handleFunc c)\<rparr>)"
    by metis
  with assms have r: "r = r0" and c1: "c1 = c\<lparr>handleFunc := selects w (handleFunc c)\<rparr>"
    by (simp_all add: canHandle_def)
  have "selects w (selects w (handleFunc c)) = selects w (handleFunc c)"
    by (simp add: selects_def split: option.splits)
  with st c1 r have "canHandle c1 input = (r, c1)"
    by (simp add: canHandle_def)
  with c1 show ?thesis by simp
qed

lemma canHandle_false_keeps:
  assumes "canHandle c input = (Inr False, c1)"
  shows "c1 = c"
proof -
  from evaluateInputHandlers_stable [of c input] obtain r0 w where
    st: "\<forall>x. evaluateInputHandlers (c\<lparr>handleFunc := x\<rparr>) input = (r0, c\<lparr>handleFunc := selects w x\<rparr>)"
    and hon: "w = None \<or> r0 \<noteq> Inr False"
    by blast
  have "c\<lparr>handleFunc := handleFunc c\<rparr> = c" by simp
  with st have "evaluateInputHandlers c input = (r0, c\<lparr>handleFunc := selects w (handleFunc c)\<rparr>)"
    by metis
  with assms hon show ?thesis by (auto simp: canHandle_def selects_def)
qed

lemma evaluateValidationList_first_failure:
  "\<forall>g\<in>set pre. g s input = ValidationTrue \<Longrightarrow> f s input = ValidationFailed fl \<Longrightarrow>
     evaluateValidationList (pre @ f # post) s input = ValidationFailed fl"
  by (induction pre) simp_all

subsection \<open>The elicitation action is ``set'' or ``change''\<close>

text \<open>
  The control writes only ``set'' or ``change'' into \<^verbatim>\<open>state.elicitationAction\<close>, so the
  action that \<^verbatim>\<open>handleBareValue\<close> reads back from the state is one of the two. With a
  built-in handler selected, the only exceptions of \<^verbatim>\<open>handle\<close> are the read of a value off
  an input that has none, the write to a \<^verbatim>\<open>lastInitiative\<close> that is undefined, and the
  \<open>ValueChangedAct\<close> without a previous value: a failed validation is never one of them.
\<close>

lemma lastInitiativeOf_error: "lastInitiativeOf s = Inl e \<Longrightarrow> e = TypeError"
  by (simp add: lastInitiativeOf_def split: option.splits)

lemma askElicitationQuestion_known:
  assumes "askElicitationQuestion c input rb act = (r, c1, rb1)"
    and "act = Action_Set \<or> act = Action_Change"
  shows "r = Inr () \<and> knownAction (elicitationAction (state c1))"
  using assms
  by (auto simp: askElicitationQuestion_def Let_def knownAction_def split: if_splits)

lemma validateAndAddActs_known:
  assumes "validateAndAddActs c input rb act = (r, c1, rb1)"
    and "act = Action_Set \<or> act = Action_Change"
  shows "knownAction (elicitationAction (state c1))
     \<and> (r = Inr () \<or> r = Inl (Error ''ValueChangedAct should only be used if there is an actual previous value''))"
proof (cases "evaluateValidationProp (validation (props c))
                ((state c)\<lparr>elicitationAction := Some act\<rparr>) input")
  case ValidationTrue
  with assms show ?thesis
    by (auto simp: validateAndAddActs_def Let_def knownAction_def split: if_splits option.splits)
next
  case (ValidationFailed fl)
  with assms(1) obtain c0 rb0 where "askElicitationQuestion c0 input rb0 act = (r, c1, rb1)"
    by (auto simp: validateAndAddActs_def Let_def)
  from askElicitationQuestion_known [OF this assms(2)] show ?thesis by blast
qed

lemma setValue_elicitationAction:
  "elicitationAction (state (setValue v er c)) = elicitationAction (state c)"
  by (simp add: setValue_def)

lemma builtin_handler_known:
  assumes call: "callHandleFunc h c input rb = (r, c1, rb1)"
    and builtin: "\<forall>eff. h \<noteq> Fn_custom eff"
    and known: "knownAction (elicitationAction (state c))"
  shows "knownAction (elicitationAction (state c1))
     \<and> (r = Inr () \<or> r = Inl TypeError
        \<or> r = Inl (Error ''ValueChangedAct should only be used if there is an actual previous value''))"
proof -
  have res: "getValueResolution input = Inl e \<Longrightarrow> e = TypeError" for e
    by (auto simp: getValueResolution_def andThen_def intentOf_def firstValue_def
          split: Request.splits list.splits)
  show ?thesis
  proof (cases h)
    case Fn_handleSetWithValue
    show ?thesis
    proof (cases "getValueResolution input")
      case (Inl e)
      with call Fn_handleSetWithValue known res [OF Inl] show ?thesis
        by (simp add: handleSetWithValue_def)
    next
      case (Inr p)
      with call Fn_handleSetWithValue
      obtain c0 where "validateAndAddActs c0 input rb Action_Set = (r, c1, rb1)"
        by (auto simp: handleSetWithValue_def split: prod.splits)
      from validateAndAddActs_known [OF this] show ?thesis by blast
    qed
  next
    case Fn_handleChangeWithValue
    show ?thesis
    proof (cases "getValueResolution input")
      case (Inl e)
      with call Fn_handleChangeWithValue known res [OF Inl] show ?thesis
        by (simp add: handleChangeWithValue_def)
    next
      case (Inr p)
      with call Fn_handleChangeWithValue
      obtain c0 where "validateAndAddActs c0 input rb Action_Change = (r, c1, rb1)"
        by (auto simp: handleChangeWithValue_def split: prod.splits)
      from validateAndAddActs_known [OF this] show ?thesis by blast
    qed
  next
    case Fn_handleSetWithoutValue
    with call have "askElicitationQuestion c input rb Action_Set = (r, c1, rb1)"
      by (simp add: handleSetWithoutValue_def)
    from askElicitationQuestion_known [OF this] show ?thesis by blast
  next
    case Fn_handleChangeWithoutValue
    with call have "askElicitationQuestion c input rb Action_Change = (r, c1, rb1)"
      by (simp add: handleChangeWithoutValue_def)
    from askElicitationQuestion_known [OF this] show ?thesis by blast
  next
    case Fn_handleBareValue
    show ?thesis
    proof (cases "getValueResolution input")
      case (Inl e)
      with call Fn_handleBareValue known res [OF Inl] show ?thesis
        by (simp add: handleBareValue_def)
    next
      case (Inr p)
      let ?act = "case elicitationAction (state c) of None \<Rightarrow> Action_Set | Some a \<Rightarrow> a"
      from known have act: "?act = Action_Set \<or> ?act = Action_Change"
        by (auto simp: knownAction_def)
      from Inr call Fn_handleBareValue
      obtain c0 where "validateAndAddActs c0 input rb ?act = (r, c1, rb1)"
        by (auto simp: handleBareValue_def Let_def setValue_elicitationAction split: prod.splits)
      from validateAndAddActs_known [OF this act] show ?thesis by blast
    qed
  next
    case Fn_handleConfirmationAffirmed
    with call known show ?thesis
      by (auto simp: handleConfirmationAffirmed_def Let_def split: sum.splits
            dest: lastInitiativeOf_error)
  next
    case Fn_handleConfirmationDisaffirmed
    with call known show ?thesis
      by (auto simp: handleConfirmationDisaffirmed_def Let_def split: sum.splits
            dest: lastInitiativeOf_error)
  next
    case (Fn_custom eff)
    with builtin show ?thesis by simp
  qed
qed

lemma canTakeInitiative_state:
  "canTakeInitiative c input = (b, c1) \<Longrightarrow>
     state c1 = state c \<and> (b \<longrightarrow> initiativeFunc c1 \<noteq> None)"
  by (auto simp: canTakeInitiative_def wantsToConfirmValue_def wantsToFixInvalidValue_def
        wantsToElicitValue_def split: if_splits)

lemma takeInitiative_known:
  assumes t: "takeInitiative c input rb = (r, c1, rb1)"
    and sel: "initiativeFunc c \<noteq> None"
    and known: "knownAction (elicitationAction (state c))"
  shows "knownAction (elicitationAction (state c1))
     \<and> (r = Inr () \<or> r = Inl TypeError
        \<or> r = Inl (Error ''ValueChangedAct should only be used if there is an actual previous value''))"
proof -
  from sel obtain f where f: "initiativeFunc c = Some f" by auto
  show ?thesis
  proof (cases f)
    case Fn_confirmValue
    with f t known show ?thesis
      by (auto simp: takeInitiative_def confirmValue_def Let_def split: sum.splits
            dest: lastInitiativeOf_error)
  next
    case Fn_fixInvalidValue
    with f t have "validateAndAddActs c input rb Action_Change = (r, c1, rb1)"
      by (simp add: takeInitiative_def fixInvalidValue_def)
    from validateAndAddActs_known [OF this] show ?thesis by blast
  next
    case Fn_elicitValue
    with f t have "askElicitationQuestion c input rb Action_Set = (r, c1, rb1)"
      by (simp add: takeInitiative_def elicitValue_def)
    from askElicitationQuestion_known [OF this] show ?thesis by blast
  qed
qed

lemma handle_exceptions:
  assumes h: "handle c input rb = (r, c1, rb1)"
    and sel: "handleFunc c = Some hf" and builtin: "\<forall>eff. hf \<noteq> Fn_custom eff"
    and known: "knownAction (elicitationAction (state c))"
  shows "knownAction (elicitationAction (state c1))
     \<and> (r = Inr () \<or> r = Inl TypeError
        \<or> r = Inl (Error ''ValueChangedAct should only be used if there is an actual previous value''))"
proof -
  obtain r0 c0 rb0 where call: "callHandleFunc hf c input rb = (r0, c0, rb0)"
    by (cases "callHandleFunc hf c input rb") auto
  note k0 = builtin_handler_known [OF call builtin known]
  show ?thesis
  proof (cases "(\<exists>u. r0 = Inr u) \<and> \<not> hasInitiativeAct rb0 \<and> fst (canTakeInitiative c0 input)")
    case False
    with h sel call have "r = r0 \<and> state c1 = state c0"
      by (auto simp: handle_def split: sum.splits if_splits prod.splits bool.splits
            dest: canTakeInitiative_state)
    with k0 show ?thesis by metis
  next
    case True
    then obtain c2 where ct: "canTakeInitiative c0 input = (True, c2)"
      by (cases "canTakeInitiative c0 input") auto
    from True h sel call ct have t: "takeInitiative c2 input rb0 = (r, c1, rb1)"
      by (auto simp: handle_def)
    from canTakeInitiative_state [OF ct] k0
    have "initiativeFunc c2 \<noteq> None" and "knownAction (elicitationAction (state c2))"
      by simp_all
    from takeInitiative_known [OF t this] show ?thesis by blast
  qed
qed

lemma constructor_known:
  "constructor p = Inr c \<Longrightarrow> knownAction (elicitationAction (state c))"
  by (auto simp: constructor_def initialState_def newValueControlState_def knownAction_def split: if_splits)

subsection \<open>The order of the initiative decision\<close>

text \<open>
  Claim C1. \<^verbatim>\<open>canTakeInitiative\<close> decides in a fixed order, and the first condition that
  holds wins: (a) a value is present, it is not confirmed and confirmation is required:
  the initiative is \<^verbatim>\<open>confirmValue\<close>, which appends a \<open>ConfirmValueAct\<close> (where
  \<^verbatim>\<open>lastInitiative\<close> is undefined its first statement throws instead); (b) otherwise a
  value is present and fails the validation: the initiative is \<^verbatim>\<open>fixInvalidValue\<close>, which
  validates again for the action ``change'' and, the validation failing, appends an
  \<open>InvalidValueAct\<close> and a \<open>RequestChangedValueAct\<close>; (c) otherwise no value is present and
  the control is required: the initiative is \<^verbatim>\<open>elicitValue\<close>, which appends a
  \<open>RequestValueAct\<close>; and when none holds the answer is false and nothing is selected.
\<close>

theorem canTakeInitiative_order:
  "canTakeInitiative c input =
     (if value' (state c) \<noteq> None \<and> \<not> isValueConfirmed (state c)
         \<and> evaluateBooleanProp (confirmationRequired (props c)) input
      then (True, c\<lparr>initiativeFunc := Some Fn_confirmValue\<rparr>)
      else if value' (state c) \<noteq> None
         \<and> evaluateValidationProp (validation (props c)) (state c) input \<noteq> ValidationTrue
      then (True, c\<lparr>initiativeFunc := Some Fn_fixInvalidValue\<rparr>)
      else if value' (state c) = None \<and> evaluateBooleanProp (required (props c)) input
      then (True, c\<lparr>initiativeFunc := Some Fn_elicitValue\<rparr>)
      else (False, c))
   \<and> (case lastInitiative (state c) of
         Some li \<Rightarrow>
           fst (callInitiativeFunc Fn_confirmValue c input rb) = Inr ()
           \<and> acts (snd (snd (callInitiativeFunc Fn_confirmValue c input rb)))
               = acts rb @ [ConfirmValueAct (id' (props c)) (value' (state c))
                              (valueRenderer (props c) (value' (state c)) input)]
       | None \<Rightarrow> callInitiativeFunc Fn_confirmValue c input rb = (Inl TypeError, c, rb))
   \<and> callInitiativeFunc Fn_fixInvalidValue c input rb = validateAndAddActs c input rb Action_Change
   \<and> (case evaluateValidationProp (validation (props c))
              ((state c)\<lparr>elicitationAction := Some Action_Change\<rparr>) input of
         ValidationTrue \<Rightarrow> True
       | ValidationFailed fl \<Rightarrow>
           acts (snd (snd (callInitiativeFunc Fn_fixInvalidValue c input rb)))
             = acts rb @ [InvalidValueAct (id' (props c)) (value' (state c))
                            (valueRenderer (props c) (value' (state c)) input)
                            (reasonCode fl) (renderedReason fl),
                          RequestChangedValueAct (id' (props c)) (value' (state c))
                            (valueRenderer (props c) (value' (state c)) input)])
   \<and> acts (snd (snd (callInitiativeFunc Fn_elicitValue c input rb)))
       = acts rb @ [RequestValueAct (id' (props c))]"
  by (simp add: canTakeInitiative_def wantsToConfirmValue_def wantsToFixInvalidValue_def
        wantsToElicitValue_def confirmValue_def fixInvalidValue_def elicitValue_def
        validateAndAddActs_def askElicitationQuestion_def addAct_def Let_def
        lastInitiativeOf_def Action_Set_not_Change [symmetric]
        split: ValidationResult.split option.split)

theorem canTakeInitiative_order_witness:
  "canTakeInitiative muggleControl launchInput
     = (True, muggleControl\<lparr>initiativeFunc := Some Fn_confirmValue\<rparr>)
   \<and> canTakeInitiative (muggleControl\<lparr>state := muggleState\<lparr>isValueConfirmed := True\<rparr>\<rparr>) launchInput
     = (True, muggleControl\<lparr>state := muggleState\<lparr>isValueConfirmed := True\<rparr>,
                           initiativeFunc := Some Fn_fixInvalidValue\<rparr>)
   \<and> canTakeInitiative houseControl launchInput
     = (True, houseControl\<lparr>initiativeFunc := Some Fn_elicitValue\<rparr>)
   \<and> canTakeInitiative (houseControl\<lparr>props := (props houseControl)\<lparr>required := BooleanValue False\<rparr>\<rparr>)
        launchInput
     = (False, houseControl\<lparr>props := (props houseControl)\<lparr>required := BooleanValue False\<rparr>\<rparr>)"
proof -
  have ord: "\<And>c. canTakeInitiative c launchInput =
     (if value' (state c) \<noteq> None \<and> \<not> isValueConfirmed (state c)
         \<and> evaluateBooleanProp (confirmationRequired (props c)) launchInput
      then (True, c\<lparr>initiativeFunc := Some Fn_confirmValue\<rparr>)
      else if value' (state c) \<noteq> None
         \<and> evaluateValidationProp (validation (props c)) (state c) launchInput \<noteq> ValidationTrue
      then (True, c\<lparr>initiativeFunc := Some Fn_fixInvalidValue\<rparr>)
      else if value' (state c) = None \<and> evaluateBooleanProp (required (props c)) launchInput
      then (True, c\<lparr>initiativeFunc := Some Fn_elicitValue\<rparr>)
      else (False, c))"
    using canTakeInitiative_order [of _ launchInput emptyResult] by blast
  show ?thesis
    by (simp add: ord muggleControl_def muggleState_def houseControl_def houseProps_def
          mergeWithDefaultProps_def mergeValidation_def mergeArray_def initialState_def newValueControlState_def
          evaluateValidationProp_def erMatchValidation_def houseValidation_def)
qed

subsection \<open>Confirmation and validity\<close>

text \<open>
  The state \<open>muggleState\<close> is the one a turn leaves behind: the fresh control decides on
  ``set the house to Muggle'', handles it, and answers with an \<open>InvalidValueAct\<close> and a
  \<open>RequestValueAct\<close>.
\<close>

lemma muggleState_reached:
  "fst (canHandle houseControl (valueInput (Some ''builtin_set'') ''Muggle'' True)) = Inr True
   \<and> state (fst (snd (handle
         (snd (canHandle houseControl (valueInput (Some ''builtin_set'') ''Muggle'' True)))
         (valueInput (Some ''builtin_set'') ''Muggle'' True) emptyResult))) = muggleState
   \<and> acts (snd (snd (handle
         (snd (canHandle houseControl (valueInput (Some ''builtin_set'') ''Muggle'' True)))
         (valueInput (Some ''builtin_set'') ''Muggle'' True) emptyResult)))
       = [InvalidValueAct ''hogwarts'' (Some ''Muggle'') (Some ''Muggle'') None
            (Some ''houseControl validation Failed''),
          RequestValueAct ''hogwarts'']"
  by code_simp

text \<open>
  Claim C2, as stated: in a state whose value fails the validation, taking initiative
  emits no \<open>ConfirmValueAct\<close> for that value. It fails for the control that requires
  confirmation and holds the unconfirmed, invalid value ``Muggle'': the confirmation check
  comes first, and the initiative taken is the confirmation question.
\<close>

theorem confirmValue_of_invalid_value_counterexample:
  "evaluateValidationProp (validation (props muggleControl)) (state muggleControl) launchInput
     \<noteq> ValidationTrue
   \<and> canTakeInitiative muggleControl launchInput
       = (True, muggleControl\<lparr>initiativeFunc := Some Fn_confirmValue\<rparr>)
   \<and> acts (snd (snd (takeInitiative (muggleControl\<lparr>initiativeFunc := Some Fn_confirmValue\<rparr>)
                       launchInput emptyResult)))
       = [ConfirmValueAct ''hogwarts'' (Some ''Muggle'') (Some ''Muggle'')]"
  by (simp add: muggleControl_def muggleState_def houseControl_def houseProps_def
        mergeWithDefaultProps_def mergeValidation_def mergeArray_def initialState_def newValueControlState_def
        evaluateValidationProp_def erMatchValidation_def houseValidation_def emptyResult_def
        canTakeInitiative_def wantsToConfirmValue_def takeInitiative_def confirmValue_def
        lastInitiativeOf_def addAct_def Let_def)

text \<open>
  Claim C2, amended. In a state whose value fails the validation, taking initiative emits no
  \<open>ConfirmValueAct\<close> when confirmation is not required or the value is already confirmed.
  When confirmation is required and a value is present and not confirmed, the initiative
  is the confirmation question whatever the validation says (in a state whose
  \<^verbatim>\<open>lastInitiative\<close> is an object, as the constructor leaves it, the act is emitted).
\<close>

theorem confirmValue_of_invalid_value_amended:
  "(evaluateValidationProp (validation (props c)) (state c) input \<noteq> ValidationTrue
      \<and> (isValueConfirmed (state c) \<or> \<not> evaluateBooleanProp (confirmationRequired (props c)) input)
      \<and> canTakeInitiative c input = (True, c1)
    \<longrightarrow> (\<exists>new. acts (snd (snd (takeInitiative c1 input rb))) = acts rb @ new
               \<and> \<not> list_ex isConfirmValueAct new))
   \<and> (value' (state c) \<noteq> None \<and> \<not> isValueConfirmed (state c)
      \<and> evaluateBooleanProp (confirmationRequired (props c)) input
    \<longrightarrow> canTakeInitiative c input = (True, c\<lparr>initiativeFunc := Some Fn_confirmValue\<rparr>)
        \<and> (lastInitiative (state c) \<noteq> None \<longrightarrow>
             acts (snd (snd (takeInitiative (c\<lparr>initiativeFunc := Some Fn_confirmValue\<rparr>) input rb)))
               = acts rb @ [ConfirmValueAct (id' (props c)) (value' (state c))
                              (valueRenderer (props c) (value' (state c)) input)]))"
proof (intro conjI impI)
  assume a: "evaluateValidationProp (validation (props c)) (state c) input \<noteq> ValidationTrue
      \<and> (isValueConfirmed (state c) \<or> \<not> evaluateBooleanProp (confirmationRequired (props c)) input)
      \<and> canTakeInitiative c input = (True, c1)"
  then have "c1 = c\<lparr>initiativeFunc := Some Fn_fixInvalidValue\<rparr>
      \<or> c1 = c\<lparr>initiativeFunc := Some Fn_elicitValue\<rparr>"
    by (auto simp: canTakeInitiative_def wantsToConfirmValue_def wantsToFixInvalidValue_def
          wantsToElicitValue_def split: if_splits)
  then show "\<exists>new. acts (snd (snd (takeInitiative c1 input rb))) = acts rb @ new
               \<and> \<not> list_ex isConfirmValueAct new"
  proof
    assume "c1 = c\<lparr>initiativeFunc := Some Fn_fixInvalidValue\<rparr>"
    then have "takeInitiative c1 input rb = validateAndAddActs c1 input rb Action_Change"
      by (simp add: takeInitiative_def fixInvalidValue_def)
    then have "validateAndAddActs c1 input rb Action_Change
        = (fst (takeInitiative c1 input rb), fst (snd (takeInitiative c1 input rb)),
           snd (snd (takeInitiative c1 input rb)))"
      by simp
    from validateAndAddActs_appends [OF this] show ?thesis by blast
  next
    assume "c1 = c\<lparr>initiativeFunc := Some Fn_elicitValue\<rparr>"
    then have "takeInitiative c1 input rb = askElicitationQuestion c1 input rb Action_Set"
      by (simp add: takeInitiative_def elicitValue_def)
    then have "askElicitationQuestion c1 input rb Action_Set
        = (fst (takeInitiative c1 input rb), fst (snd (takeInitiative c1 input rb)),
           snd (snd (takeInitiative c1 input rb)))"
      by simp
    from askElicitationQuestion_appends [OF this] show ?thesis by blast
  qed
next
  assume "value' (state c) \<noteq> None \<and> \<not> isValueConfirmed (state c)
      \<and> evaluateBooleanProp (confirmationRequired (props c)) input"
  then show "canTakeInitiative c input = (True, c\<lparr>initiativeFunc := Some Fn_confirmValue\<rparr>)"
    by (simp add: canTakeInitiative_def wantsToConfirmValue_def)
next
  assume "lastInitiative (state c) \<noteq> None"
  then show "acts (snd (snd (takeInitiative (c\<lparr>initiativeFunc := Some Fn_confirmValue\<rparr>) input rb)))
            = acts rb @ [ConfirmValueAct (id' (props c)) (value' (state c))
                           (valueRenderer (props c) (value' (state c)) input)]"
    by (auto simp: takeInitiative_def confirmValue_def lastInitiativeOf_def addAct_def Let_def)
qed

theorem confirmValue_of_invalid_value_amended_witness:
  "acts (snd (snd (takeInitiative
       (muggleControl\<lparr>state := muggleState\<lparr>isValueConfirmed := True\<rparr>,
                       initiativeFunc := Some Fn_fixInvalidValue\<rparr>) launchInput emptyResult)))
     = [InvalidValueAct ''hogwarts'' (Some ''Muggle'') (Some ''Muggle'') None
          (Some ''houseControl validation Failed''),
        RequestChangedValueAct ''hogwarts'' (Some ''Muggle'') (Some ''Muggle'')]
   \<and> (\<exists>new. acts (snd (snd (takeInitiative
         (muggleControl\<lparr>state := muggleState\<lparr>isValueConfirmed := True\<rparr>,
                         initiativeFunc := Some Fn_fixInvalidValue\<rparr>) launchInput emptyResult)))
         = acts emptyResult @ new \<and> \<not> list_ex isConfirmValueAct new)"
proof -
  let ?c = "muggleControl\<lparr>state := muggleState\<lparr>isValueConfirmed := True\<rparr>\<rparr>"
  let ?c1 = "muggleControl\<lparr>state := muggleState\<lparr>isValueConfirmed := True\<rparr>,
                            initiativeFunc := Some Fn_fixInvalidValue\<rparr>"
  have hyp: "evaluateValidationProp (validation (props ?c)) (state ?c) launchInput \<noteq> ValidationTrue
      \<and> (isValueConfirmed (state ?c) \<or> \<not> evaluateBooleanProp (confirmationRequired (props ?c)) launchInput)
      \<and> canTakeInitiative ?c launchInput = (True, ?c1)"
    by (simp add: muggleControl_def muggleState_def houseControl_def houseProps_def
          mergeWithDefaultProps_def mergeValidation_def mergeArray_def
          evaluateValidationProp_def erMatchValidation_def houseValidation_def
          canTakeInitiative_def wantsToConfirmValue_def wantsToFixInvalidValue_def)
  from confirmValue_of_invalid_value_amended [of ?c launchInput ?c1 emptyResult] hyp
  have concl: "\<exists>new. acts (snd (snd (takeInitiative ?c1 launchInput emptyResult)))
         = acts emptyResult @ new \<and> \<not> list_ex isConfirmValueAct new"
    by blast
  have "acts (snd (snd (takeInitiative ?c1 launchInput emptyResult)))
     = [InvalidValueAct ''hogwarts'' (Some ''Muggle'') (Some ''Muggle'') None
          (Some ''houseControl validation Failed''),
        RequestChangedValueAct ''hogwarts'' (Some ''Muggle'') (Some ''Muggle'')]"
    by (simp add: muggleControl_def muggleState_def houseControl_def houseProps_def
          mergeWithDefaultProps_def mergeValidation_def mergeArray_def emptyResult_def
          evaluateValidationProp_def erMatchValidation_def houseValidation_def
          takeInitiative_def fixInvalidValue_def validateAndAddActs_def
          askElicitationQuestion_def addAct_def Let_def Action_Set_not_Change [symmetric]
         )
  with concl show ?thesis by simp
qed

subsection \<open>Yes and no\<close>

text \<open>
  In a state whose \<^verbatim>\<open>lastInitiative\<close> is an object, \<^verbatim>\<open>isConfirmationAffirmed\<close> returns
  true exactly when the input is a bare yes and \<^verbatim>\<open>lastInitiative.actName\<close> is
  \<open>ConfirmValueAct\<close>, and then selects \<^verbatim>\<open>handleConfirmationAffirmed\<close>; otherwise it returns
  false and changes nothing. \<^verbatim>\<open>isConfirmationDisaffirmed\<close> does the same for a bare no.
\<close>

lemma confirmation_only_after_ConfirmValueAct:
  assumes "lastInitiative (state c) = Some li"
  shows "isConfirmationAffirmed c input =
     (if isBareYes input \<and> actName li = Some ConfirmValueAct_name
      then (Inr True, c\<lparr>handleFunc := Some Fn_handleConfirmationAffirmed\<rparr>)
      else (Inr False, c))
   \<and> isConfirmationDisaffirmed c input =
     (if isBareNo input \<and> actName li = Some ConfirmValueAct_name
      then (Inr True, c\<lparr>handleFunc := Some Fn_handleConfirmationDisaffirmed\<rparr>)
      else (Inr False, c))"
  using assms
  by (simp add: isConfirmationAffirmed_def isConfirmationDisaffirmed_def andThen_def okIf_def
        falseIfGuardFailed_def lastInitiativeOf_def)

text \<open>
  In a state whose \<^verbatim>\<open>lastInitiative\<close> is undefined, the state that \<^verbatim>\<open>clear()\<close> leaves, the
  two predicates return false on any input that is not a bare yes (no), and throw a
  \<^verbatim>\<open>TypeError\<close> on a bare yes (no): the read of \<^verbatim>\<open>lastInitiative.actName\<close> fails inside
  the \<^verbatim>\<open>try\<close>, and \<^verbatim>\<open>falseIfGuardFailed\<close> throws again what is not a failed guard.
\<close>

lemma confirmation_without_lastInitiative:
  assumes "lastInitiative (state c) = None"
  shows "isConfirmationAffirmed c input =
     (if isBareYes input then (Inl TypeError, c) else (Inr False, c))
   \<and> isConfirmationDisaffirmed c input =
     (if isBareNo input then (Inl TypeError, c) else (Inr False, c))"
  using assms
  by (simp add: isConfirmationAffirmed_def isConfirmationDisaffirmed_def andThen_def okIf_def
        falseIfGuardFailed_def lastInitiativeOf_def)

text \<open>
  Claim C3 says that in every state the two predicates return true exactly on a bare yes
  (no) after a \<open>ConfirmValueAct\<close>, and false in every other state. The code does not
  return false on the control that \<^verbatim>\<open>new ValueControl(houseProps)\<close> builds once \<^verbatim>\<open>clear()\<close>
  has been called on it: \<^verbatim>\<open>clear()\<close> leaves \<^verbatim>\<open>lastInitiative\<close> undefined, where the
  constructor assigns \<^verbatim>\<open>{}\<close>, and on a bare yes (no) the predicates, and \<^verbatim>\<open>canHandle\<close>
  with them, throw a \<^verbatim>\<open>TypeError\<close>.
\<close>

theorem confirmation_after_clear_throws:
  "constructor houseProps = Inr houseControl
   \<and> lastInitiative (state (clear houseControl)) = None
   \<and> isConfirmationAffirmed (clear houseControl) (plainIntent YesIntent)
       = (Inl TypeError, clear houseControl)
   \<and> isConfirmationDisaffirmed (clear houseControl) (plainIntent NoIntent)
       = (Inl TypeError, clear houseControl)
   \<and> fst (canHandle (clear houseControl) (plainIntent YesIntent)) = Inl TypeError
   \<and> fst (canHandle (clear houseControl) (plainIntent NoIntent)) = Inl TypeError
   \<and> isConfirmationAffirmed houseControl (plainIntent YesIntent) = (Inr False, houseControl)
   \<and> isConfirmationDisaffirmed houseControl (plainIntent NoIntent) = (Inr False, houseControl)"
proof -
  have k: "constructor houseProps = Inr houseControl"
    by (simp add: constructor_def houseControl_def houseProps_def SEARCH_QUERY_def)
  have n: "lastInitiative (state (clear houseControl)) = None"
    by (simp add: clear_def newValueControlState_def)
  have y: "isBareYes (plainIntent YesIntent)" and o: "isBareNo (plainIntent NoIntent)"
    by (simp_all add: isBareYes_def isBareNo_def isIntent_def plainIntent_def)
  have l: "lastInitiative (state houseControl) = Some \<lparr>actName = None\<rparr>"
    by (simp add: houseControl_def initialState_def newValueControlState_def)
  have can: "fst (canHandle (clear houseControl) (plainIntent YesIntent)) = Inl TypeError
      \<and> fst (canHandle (clear houseControl) (plainIntent NoIntent)) = Inl TypeError"
    by (simp add: canHandle_def evaluateInputHandlers_def standardInputHandlers_def
          isSetWithValue_def isChangeWithValue_def isSetWithoutValue_def isChangeWithoutValue_def
          isBareValue_def isConfirmationAffirmed_def isConfirmationDisaffirmed_def
          andThen_def okIf_def falseIfGuardFailed_def isIntent_def isBareYes_def isBareNo_def
          lastInitiativeOf_def intentName_def GeneralControlIntent_name_def YesIntent_def
          NoIntent_def plainIntent_def clear_def newValueControlState_def houseControl_def
          houseProps_def mergeWithDefaultProps_def mergeArray_def)
  from k n can confirmation_without_lastInitiative [OF n] confirmation_only_after_ConfirmValueAct [OF l]
    y o show ?thesis by simp
qed

subsection \<open>Setting the value\<close>

text \<open>
  Claim C4. After \<^verbatim>\<open>setValue(value, erMatch)\<close> the confirmation flag is false, the previous
  value is the value held before the call, the value is the new one and \<^verbatim>\<open>erMatch\<close> is the
  flag given (true when the argument is left out). The validation that the handlers run
  right after \<^verbatim>\<open>setValue\<close> leaves the flag false.
\<close>

theorem setValue_state:
  "isValueConfirmed (state (setValue v er c)) = False
   \<and> previousValue (state (setValue v er c)) = value' (state c)
   \<and> value' (state (setValue v er c)) = v
   \<and> erMatch (state (setValue v (Some b) c)) = Some b
   \<and> erMatch (state (setValue v None c)) = Some True
   \<and> isValueConfirmed (state (fst (snd (validateAndAddActs (setValue v er c) input rb act)))) = False"
  by (simp add: setValue_def validateAndAddActs_def askElicitationQuestion_def Let_def
        split: ValidationResult.split option.split)

subsection \<open>Validation and the acts it adds\<close>

text \<open>
  Claim C5. Whatever \<^verbatim>\<open>validateAndAddActs\<close> appends, a \<open>ValueChangedAct\<close> is among it only
  when the action is ``change'' and \<^verbatim>\<open>state.previousValue\<close> is defined. For the action
  ``change'', when the validation passes and \<^verbatim>\<open>previousValue\<close> is undefined the method
  throws an \<^verbatim>\<open>Error\<close> and appends nothing (no act, no \<open>InvalidValueAct\<close>); when it passes and
  \<^verbatim>\<open>previousValue\<close> is defined the method appends the \<open>ValueChangedAct\<close> with that
  previous value.
\<close>

theorem valueChangedAct_needs_previousValue:
  "(\<exists>new. acts (snd (snd (validateAndAddActs c input rb act))) = acts rb @ new
        \<and> (list_ex isValueChangedAct new \<longrightarrow> act = Action_Change \<and> previousValue (state c) \<noteq> None))
   \<and> (evaluateValidationProp (validation (props c))
         ((state c)\<lparr>elicitationAction := Some Action_Change\<rparr>) input = ValidationTrue
       \<and> previousValue (state c) = None
     \<longrightarrow> validateAndAddActs c input rb Action_Change
          = (Inl (Error ''ValueChangedAct should only be used if there is an actual previous value''),
             c\<lparr>state := (state c)\<lparr>elicitationAction := Some Action_Change\<rparr>\<rparr>, rb))
   \<and> (evaluateValidationProp (validation (props c))
         ((state c)\<lparr>elicitationAction := Some Action_Change\<rparr>) input = ValidationTrue
       \<and> previousValue (state c) = Some pv
     \<longrightarrow> validateAndAddActs c input rb Action_Change
          = (Inr (), c\<lparr>state := (state c)\<lparr>elicitationAction := Some Action_Change\<rparr>\<rparr>,
             rb\<lparr>acts := acts rb @
                 [ValueChangedAct (id' (props c)) pv (valueRenderer (props c) (Some pv) input)
                    (value' (state c)) (valueRenderer (props c) (value' (state c)) input)]\<rparr>))"
proof (intro conjI impI)
  show "\<exists>new. acts (snd (snd (validateAndAddActs c input rb act))) = acts rb @ new
        \<and> (list_ex isValueChangedAct new \<longrightarrow> act = Action_Change \<and> previousValue (state c) \<noteq> None)"
    by (auto simp: validateAndAddActs_def askElicitationQuestion_def Let_def addAct_def
          split: ValidationResult.splits option.splits)
qed (simp_all add: validateAndAddActs_def Let_def addAct_def)

theorem valueChangedAct_needs_previousValue_witness:
  "validateAndAddActs (setValue (Some ''Ravenclaw'') (Some True) houseControl) launchInput
      emptyResult Action_Change
     = (Inl (Error ''ValueChangedAct should only be used if there is an actual previous value''),
        (setValue (Some ''Ravenclaw'') (Some True) houseControl)
          \<lparr>state := (state (setValue (Some ''Ravenclaw'') (Some True) houseControl))
                      \<lparr>elicitationAction := Some Action_Change\<rparr>\<rparr>,
        emptyResult)
   \<and> acts (snd (snd (validateAndAddActs (setValue (Some ''Ravenclaw'') (Some True) muggleControl)
               launchInput emptyResult Action_Change)))
     = [ValueChangedAct ''hogwarts'' ''Muggle'' (Some ''Muggle'') (Some ''Ravenclaw'')
          (Some ''Ravenclaw'')]"
proof -
  let ?c = "setValue (Some ''Ravenclaw'') (Some True) houseControl"
  let ?d = "setValue (Some ''Ravenclaw'') (Some True) muggleControl"
  have hc: "evaluateValidationProp (validation (props ?c))
         ((state ?c)\<lparr>elicitationAction := Some Action_Change\<rparr>) launchInput = ValidationTrue
       \<and> previousValue (state ?c) = None"
    by (simp add: setValue_def houseControl_def houseProps_def mergeWithDefaultProps_def
          mergeValidation_def mergeArray_def initialState_def newValueControlState_def evaluateValidationProp_def
          erMatchValidation_def houseValidation_def)
  have hd: "evaluateValidationProp (validation (props ?d))
         ((state ?d)\<lparr>elicitationAction := Some Action_Change\<rparr>) launchInput = ValidationTrue
       \<and> previousValue (state ?d) = Some ''Muggle''"
    by (simp add: setValue_def muggleControl_def muggleState_def houseControl_def houseProps_def
          mergeWithDefaultProps_def mergeValidation_def mergeArray_def evaluateValidationProp_def
          erMatchValidation_def houseValidation_def)
  from valueChangedAct_needs_previousValue [of ?c launchInput emptyResult Action_Change] hc
  have 1: "validateAndAddActs ?c launchInput emptyResult Action_Change
          = (Inl (Error ''ValueChangedAct should only be used if there is an actual previous value''),
             ?c\<lparr>state := (state ?c)\<lparr>elicitationAction := Some Action_Change\<rparr>\<rparr>, emptyResult)"
    by blast
  from valueChangedAct_needs_previousValue [of ?d launchInput emptyResult Action_Change "''Muggle''"] hd
  have "validateAndAddActs ?d launchInput emptyResult Action_Change
          = (Inr (), ?d\<lparr>state := (state ?d)\<lparr>elicitationAction := Some Action_Change\<rparr>\<rparr>,
             emptyResult\<lparr>acts := acts emptyResult @
                 [ValueChangedAct (id' (props ?d)) ''Muggle'' (valueRenderer (props ?d) (Some ''Muggle'') launchInput)
                    (value' (state ?d)) (valueRenderer (props ?d) (value' (state ?d)) launchInput)]\<rparr>)"
    by blast
  then have 2: "acts (snd (snd (validateAndAddActs ?d launchInput emptyResult Action_Change)))
     = [ValueChangedAct ''hogwarts'' ''Muggle'' (Some ''Muggle'') (Some ''Ravenclaw'')
          (Some ''Ravenclaw'')]"
    by (simp add: setValue_def muggleControl_def muggleState_def houseControl_def houseProps_def
          mergeWithDefaultProps_def emptyResult_def)
  from 1 2 show ?thesis by simp
qed

text \<open>
  Claim C6. When the first validation function that fails, in the order of the list,
  fails with \<open>fl\<close>, \<^verbatim>\<open>validateAndAddActs\<close> for the action ``set'' or ``change'' returns
  normally and appends exactly an \<open>InvalidValueAct\<close> with the reason of \<open>fl\<close> and then the
  request for the same action: a \<open>RequestValueAct\<close> for ``set'', a
  \<open>RequestChangedValueAct\<close> for ``change''. The validation functions see the state with
  the elicitation action already recorded. By \<open>handle_exceptions\<close> above, the built-in
  handlers and initiatives call the method with one of these two actions only, and no
  exception of theirs comes from a failed validation.
\<close>

theorem validation_failure_first_wins:
  assumes "listOfValidationFunc (validation (props c)) = pre @ f # post"
    and "\<forall>g\<in>set pre. g ((state c)\<lparr>elicitationAction := Some act\<rparr>) input = ValidationTrue"
    and "f ((state c)\<lparr>elicitationAction := Some act\<rparr>) input = ValidationFailed fl"
    and "act = Action_Set \<or> act = Action_Change"
  shows "validateAndAddActs c input rb act
     = (Inr (), c\<lparr>state := (state c)\<lparr>elicitationAction := Some act\<rparr>\<rparr>,
        rb\<lparr>acts := acts rb @
              [InvalidValueAct (id' (props c)) (value' (state c))
                 (valueRenderer (props c) (value' (state c)) input)
                 (reasonCode fl) (renderedReason fl),
               if act = Action_Set then RequestValueAct (id' (props c))
               else RequestChangedValueAct (id' (props c)) (value' (state c))
                      (valueRenderer (props c) (value' (state c)) input)]\<rparr>)"
proof -
  have "evaluateValidationProp (validation (props c))
          ((state c)\<lparr>elicitationAction := Some act\<rparr>) input = ValidationFailed fl"
    using assms(1-3) by (simp add: evaluateValidationProp_def evaluateValidationList_first_failure)
  with assms(4) show ?thesis
    by (auto simp: validateAndAddActs_def askElicitationQuestion_def Let_def addAct_def
          Action_Set_not_Change [symmetric])
qed

theorem validation_failure_first_wins_witness:
  "validateAndAddActs (setValue (Some ''Muggle'') (Some True) houseControl) launchInput
      emptyResult Action_Set
     = (Inr (),
        (setValue (Some ''Muggle'') (Some True) houseControl)
          \<lparr>state := (state (setValue (Some ''Muggle'') (Some True) houseControl))
                      \<lparr>elicitationAction := Some Action_Set\<rparr>\<rparr>,
        \<lparr>acts = [InvalidValueAct ''hogwarts'' (Some ''Muggle'') (Some ''Muggle'') None
                   (Some ''houseControl validation Failed''),
                 RequestValueAct ''hogwarts'']\<rparr>)
   \<and> acts (snd (snd (validateAndAddActs (setValue (Some ''Muggle'') (Some False) muggleControl)
               launchInput emptyResult Action_Change)))
     = [InvalidValueAct ''hogwarts'' (Some ''Muggle'') (Some ''Muggle'') (Some ''NoMatch'') None,
        RequestChangedValueAct ''hogwarts'' (Some ''Muggle'') (Some ''Muggle'')]"
proof -
  let ?c = "setValue (Some ''Muggle'') (Some True) houseControl"
  let ?d = "setValue (Some ''Muggle'') (Some False) muggleControl"
  let ?fh = "\<lparr>reasonCode = None, renderedReason = Some ''houseControl validation Failed''\<rparr>"
  let ?fe = "\<lparr>reasonCode = Some ''NoMatch'', renderedReason = None\<rparr>"
  have c1: "listOfValidationFunc (validation (props ?c)) = [erMatchValidation] @ houseValidation # []"
    by (simp add: setValue_def houseControl_def houseProps_def mergeWithDefaultProps_def
          mergeValidation_def mergeArray_def)
  have c2: "\<forall>g\<in>set [erMatchValidation].
       g ((state ?c)\<lparr>elicitationAction := Some Action_Set\<rparr>) launchInput = ValidationTrue"
    by (simp add: setValue_def erMatchValidation_def)
  have c3: "houseValidation ((state ?c)\<lparr>elicitationAction := Some Action_Set\<rparr>) launchInput
       = ValidationFailed ?fh"
    by (simp add: setValue_def houseValidation_def)
  have c4: "Action_Set = Action_Set \<or> Action_Set = Action_Change" by simp
  have d1: "listOfValidationFunc (validation (props ?d)) = [] @ erMatchValidation # [houseValidation]"
    by (simp add: setValue_def muggleControl_def houseControl_def houseProps_def
          mergeWithDefaultProps_def mergeValidation_def mergeArray_def)
  have d2: "\<forall>g\<in>set []. g ((state ?d)\<lparr>elicitationAction := Some Action_Change\<rparr>) launchInput
       = ValidationTrue"
    by simp
  have d3: "erMatchValidation ((state ?d)\<lparr>elicitationAction := Some Action_Change\<rparr>) launchInput
       = ValidationFailed ?fe"
    by (simp add: setValue_def erMatchValidation_def)
  have d4: "Action_Change = Action_Set \<or> Action_Change = Action_Change" by simp
  note wc = validation_failure_first_wins [OF c1 c2 c3 c4, of emptyResult]
  note wd = validation_failure_first_wins [OF d1 d2 d3 d4, of emptyResult]
  from wc have 1: "validateAndAddActs ?c launchInput emptyResult Action_Set
     = (Inr (), ?c\<lparr>state := (state ?c)\<lparr>elicitationAction := Some Action_Set\<rparr>\<rparr>,
        \<lparr>acts = [InvalidValueAct ''hogwarts'' (Some ''Muggle'') (Some ''Muggle'') None
                   (Some ''houseControl validation Failed''),
                 RequestValueAct ''hogwarts'']\<rparr>)"
    by (simp add: setValue_def houseControl_def houseProps_def mergeWithDefaultProps_def
          initialState_def newValueControlState_def emptyResult_def)
  from wd have 2: "acts (snd (snd (validateAndAddActs ?d launchInput emptyResult Action_Change)))
     = [InvalidValueAct ''hogwarts'' (Some ''Muggle'') (Some ''Muggle'') (Some ''NoMatch'') None,
        RequestChangedValueAct ''hogwarts'' (Some ''Muggle'') (Some ''Muggle'')]"
    by (simp add: setValue_def muggleControl_def muggleState_def houseControl_def houseProps_def
          mergeWithDefaultProps_def emptyResult_def Action_Set_not_Change [symmetric])
  from 1 2 show ?thesis by simp
qed

subsection \<open>At most one initiative act\<close>

text \<open>
  Claim C7. \<^verbatim>\<open>handle\<close> appends at most one initiative act: each built-in handler appends at
  most one, and \<^verbatim>\<open>canTakeInitiative\<close> and \<^verbatim>\<open>takeInitiative\<close> run after the handler only when
  the result holds no initiative act. So a result that held no initiative act before
  \<^verbatim>\<open>handle\<close> holds at most one after it, and when the handler's own result holds an
  initiative act, \<^verbatim>\<open>handle\<close> returns that result as it is. A custom handler is user code:
  when one is selected, the theorem takes from it what the claim says of every handler,
  that it appends at most one initiative act.
\<close>

theorem handle_at_most_one_initiative_act:
  assumes "handle c input rb = (r, c1, rb1)"
    and "\<forall>eff. handleFunc c = Some (Fn_custom eff) \<longrightarrow>
           (\<exists>new. acts (snd (snd (eff input (state c) rb))) = acts rb @ new
                 \<and> length (filter takesInitiative new) \<le> 1)"
  shows "(\<exists>new. acts rb1 = acts rb @ new \<and> length (filter takesInitiative new) \<le> 1)
     \<and> (\<not> hasInitiativeAct rb \<longrightarrow> length (initiativeActs rb1) \<le> 1)
     \<and> (\<forall>h u c2 rb2. handleFunc c = Some h \<and> callHandleFunc h c input rb = (Inr u, c2, rb2)
            \<and> hasInitiativeAct rb2 \<longrightarrow> c1 = c2 \<and> rb1 = rb2)"
proof (intro conjI impI allI)
  show app: "\<exists>new. acts rb1 = acts rb @ new \<and> length (filter takesInitiative new) \<le> 1"
    by (rule handle_appends [OF assms(1)]) (use assms(2) in blast)
  {
    assume "\<not> hasInitiativeAct rb"
    then have "filter takesInitiative (acts rb) = []"
      by (simp add: hasInitiativeAct_def list_ex_iff filter_empty_conv)
    with app show "length (initiativeActs rb1) \<le> 1"
      by (auto simp: initiativeActs_def)
  }
  {
    fix h u c2 rb2
    assume "handleFunc c = Some h \<and> callHandleFunc h c input rb = (Inr u, c2, rb2)
            \<and> hasInitiativeAct rb2"
    then have "handle c input rb = (Inr (), c2, rb2)"
      by (simp add: handle_skips_initiative)
    with assms(1) show "c1 = c2" and "rb1 = rb2" by simp_all
  }
qed

theorem handle_at_most_one_initiative_act_witness:
  "acts (snd (snd (handle (ravenclawControl\<lparr>handleFunc := Some Fn_handleConfirmationDisaffirmed\<rparr>)
                     (plainIntent NoIntent) emptyResult)))
     = [ValueDisconfirmedAct ''hogwarts'' (Some ''Ravenclaw'') (Some ''Ravenclaw''),
        RequestValueAct ''hogwarts'']
   \<and> length (initiativeActs (snd (snd (handle
        (ravenclawControl\<lparr>handleFunc := Some Fn_handleConfirmationDisaffirmed\<rparr>)
        (plainIntent NoIntent) emptyResult)))) \<le> 1
   \<and> acts (snd (snd (handle (houseControl\<lparr>handleFunc := Some Fn_handleSetWithValue\<rparr>)
                     (valueInput (Some Action_Set) ''Ravenclaw'' True) emptyResult)))
     = [ValueSetAct ''hogwarts'' (Some ''Ravenclaw'') (Some ''Ravenclaw''),
        ConfirmValueAct ''hogwarts'' (Some ''Ravenclaw'') (Some ''Ravenclaw'')]
   \<and> length (initiativeActs (snd (snd (handle
        (houseControl\<lparr>handleFunc := Some Fn_handleSetWithValue\<rparr>)
        (valueInput (Some Action_Set) ''Ravenclaw'' True) emptyResult)))) \<le> 1
   \<and> length (initiativeActs (snd (snd (handle
        (houseControl\<lparr>handleFunc := Some (Fn_custom askAgain)\<rparr>) launchInput emptyResult)))) \<le> 1"
proof -
  let ?c = "ravenclawControl\<lparr>handleFunc := Some Fn_handleConfirmationDisaffirmed\<rparr>"
  let ?i = "plainIntent NoIntent"
  let ?d = "houseControl\<lparr>handleFunc := Some Fn_handleSetWithValue\<rparr>"
  let ?j = "valueInput (Some Action_Set) ''Ravenclaw'' True"
  have fresh: "\<not> hasInitiativeAct emptyResult"
    by (simp add: hasInitiativeAct_def emptyResult_def)
  have hc: "handle ?c ?i emptyResult
      = (fst (handle ?c ?i emptyResult), fst (snd (handle ?c ?i emptyResult)),
         snd (snd (handle ?c ?i emptyResult)))"
    by simp
  have cc: "\<forall>eff. handleFunc ?c = Some (Fn_custom eff) \<longrightarrow>
           (\<exists>new. acts (snd (snd (eff ?i (state ?c) emptyResult))) = acts emptyResult @ new
                 \<and> length (filter takesInitiative new) \<le> 1)"
    by simp
  have hd: "handle ?d ?j emptyResult
      = (fst (handle ?d ?j emptyResult), fst (snd (handle ?d ?j emptyResult)),
         snd (snd (handle ?d ?j emptyResult)))"
    by simp
  have cd: "\<forall>eff. handleFunc ?d = Some (Fn_custom eff) \<longrightarrow>
           (\<exists>new. acts (snd (snd (eff ?j (state ?d) emptyResult))) = acts emptyResult @ new
                 \<and> length (filter takesInitiative new) \<le> 1)"
    by simp
  let ?k = "houseControl\<lparr>handleFunc := Some (Fn_custom askAgain)\<rparr>"
  have hk: "handle ?k launchInput emptyResult
      = (fst (handle ?k launchInput emptyResult), fst (snd (handle ?k launchInput emptyResult)),
         snd (snd (handle ?k launchInput emptyResult)))"
    by simp
  have ck: "\<forall>eff. handleFunc ?k = Some (Fn_custom eff) \<longrightarrow>
           (\<exists>new. acts (snd (snd (eff launchInput (state ?k) emptyResult))) = acts emptyResult @ new
                 \<and> length (filter takesInitiative new) \<le> 1)"
    by (simp add: askAgain_def addAct_def)
  from handle_at_most_one_initiative_act [OF hk ck] fresh
  have 5: "length (initiativeActs (snd (snd (handle ?k launchInput emptyResult)))) \<le> 1"
    by blast
  from handle_at_most_one_initiative_act [OF hc cc] fresh
  have 1: "length (initiativeActs (snd (snd (handle ?c ?i emptyResult)))) \<le> 1"
    by blast
  from handle_at_most_one_initiative_act [OF hd cd] fresh
  have 2: "length (initiativeActs (snd (snd (handle ?d ?j emptyResult)))) \<le> 1"
    by blast
  have 3: "acts (snd (snd (handle ?c ?i emptyResult)))
     = [ValueDisconfirmedAct ''hogwarts'' (Some ''Ravenclaw'') (Some ''Ravenclaw''),
        RequestValueAct ''hogwarts'']"
    by (simp add: handle_def handleConfirmationDisaffirmed_def lastInitiativeOf_def
          hasInitiativeAct_def addAct_def
          Let_def emptyResult_def ravenclawControl_def ravenclawState_def houseControl_def
          houseProps_def mergeWithDefaultProps_def)
  have 4: "acts (snd (snd (handle ?d ?j emptyResult)))
     = [ValueSetAct ''hogwarts'' (Some ''Ravenclaw'') (Some ''Ravenclaw''),
        ConfirmValueAct ''hogwarts'' (Some ''Ravenclaw'') (Some ''Ravenclaw'')]"
    by (simp add: handle_def handleSetWithValue_def getValueResolution_def intentOf_def
          firstValue_def andThen_def valueInput_def setValue_def validateAndAddActs_def
          evaluateValidationProp_def erMatchValidation_def houseValidation_def
          hasInitiativeAct_def addAct_def Let_def emptyResult_def houseControl_def
          houseProps_def mergeWithDefaultProps_def mergeValidation_def mergeArray_def
          initialState_def newValueControlState_def Action_Set_not_Change
          canTakeInitiative_def wantsToConfirmValue_def takeInitiative_def confirmValue_def
          lastInitiativeOf_def)
  from 1 2 3 4 5 show ?thesis by simp
qed

subsection \<open>Calls without a decision\<close>

text \<open>
  Claim C8. With no handler selected (\<^verbatim>\<open>handleFunc\<close> undefined), \<^verbatim>\<open>handle\<close> throws and
  changes neither the control nor the result; with no initiative selected,
  \<^verbatim>\<open>takeInitiative\<close> throws likewise. This is the case of a control fresh from its
  constructor whose \<^verbatim>\<open>canHandle\<close> (or \<^verbatim>\<open>canTakeInitiative\<close>) has answered false.
\<close>

theorem handle_without_decision_throws:
  "(handleFunc c = None \<longrightarrow> (\<exists>e. handle c input rb = (Inl e, c, rb)))
   \<and> (initiativeFunc c = None \<longrightarrow> (\<exists>e. takeInitiative c input rb = (Inl e, c, rb)))
   \<and> (constructor p = Inr c \<and> canHandle c input = (Inr False, c1)
        \<longrightarrow> (\<exists>e. handle c1 input rb = (Inl e, c1, rb)))
   \<and> (constructor p = Inr c \<and> canTakeInitiative c input = (False, c1)
        \<longrightarrow> (\<exists>e. takeInitiative c1 input rb = (Inl e, c1, rb)))"
proof (intro conjI impI)
  assume "handleFunc c = None"
  then show "\<exists>e. handle c input rb = (Inl e, c, rb)"
    by (simp add: handle_def split: sum.split)
next
  assume "initiativeFunc c = None"
  then show "\<exists>e. takeInitiative c input rb = (Inl e, c, rb)"
    by (simp add: takeInitiative_def)
next
  assume a: "constructor p = Inr c \<and> canHandle c input = (Inr False, c1)"
  then have "canHandle c input = (Inr False, c1)" by simp
  then have "c1 = c" by (rule canHandle_false_keeps)
  moreover from a have "handleFunc c = None"
    by (auto simp: constructor_def split: if_splits)
  ultimately show "\<exists>e. handle c1 input rb = (Inl e, c1, rb)"
    by (simp add: handle_def split: sum.split)
next
  assume a: "constructor p = Inr c \<and> canTakeInitiative c input = (False, c1)"
  then have "c1 = c"
    by (auto simp: canTakeInitiative_def wantsToConfirmValue_def wantsToFixInvalidValue_def
          wantsToElicitValue_def split: if_splits)
  moreover from a have "initiativeFunc c = None"
    by (auto simp: constructor_def split: if_splits)
  ultimately show "\<exists>e. takeInitiative c1 input rb = (Inl e, c1, rb)"
    by (simp add: takeInitiative_def)
qed

theorem handle_without_decision_throws_witness:
  "handle houseControl (plainIntent YesIntent) emptyResult
     = (Inl (Error ''AMAZON.YesIntent can not be handled by ValueControl.''), houseControl, emptyResult)
   \<and> (\<exists>e. handle houseControl launchInput emptyResult = (Inl e, houseControl, emptyResult))
   \<and> (\<exists>e. takeInitiative houseControl launchInput emptyResult = (Inl e, houseControl, emptyResult))
   \<and> canHandle houseControl (plainIntent YesIntent) = (Inr False, houseControl)"
proof -
  have h: "handleFunc houseControl = None" and i: "initiativeFunc houseControl = None"
    by (simp_all add: houseControl_def)
  from handle_without_decision_throws [of houseControl "plainIntent YesIntent" emptyResult] h
  obtain e where e: "handle houseControl (plainIntent YesIntent) emptyResult = (Inl e, houseControl, emptyResult)"
    by blast
  have "fst (handle houseControl (plainIntent YesIntent) emptyResult)
      = Inl (Error ''AMAZON.YesIntent can not be handled by ValueControl.'')"
    by (simp add: handle_def h intentOf_def plainIntent_def YesIntent_def)
  with e have 1: "handle houseControl (plainIntent YesIntent) emptyResult
     = (Inl (Error ''AMAZON.YesIntent can not be handled by ValueControl.''), houseControl, emptyResult)"
    by simp
  from handle_without_decision_throws [of houseControl launchInput emptyResult] h i
  have 2: "\<exists>e. handle houseControl launchInput emptyResult = (Inl e, houseControl, emptyResult)"
    and 3: "\<exists>e. takeInitiative houseControl launchInput emptyResult = (Inl e, houseControl, emptyResult)"
    by blast+
  have 4: "canHandle houseControl (plainIntent YesIntent) = (Inr False, houseControl)"
    by (simp add: canHandle_def evaluateInputHandlers_def standardInputHandlers_def
          isSetWithValue_def isChangeWithValue_def isSetWithoutValue_def isChangeWithoutValue_def
          isBareValue_def isConfirmationAffirmed_def isConfirmationDisaffirmed_def
          lastInitiativeOf_def
          andThen_def okIf_def falseIfGuardFailed_def isIntent_def isBareYes_def isBareNo_def
          intentName_def GeneralControlIntent_name_def YesIntent_def NoIntent_def
          ConfirmValueAct_name_def plainIntent_def houseControl_def houseProps_def
          mergeWithDefaultProps_def mergeArray_def initialState_def newValueControlState_def)
  from 1 2 3 4 show ?thesis by simp
qed

subsection \<open>Deciding twice\<close>

text \<open>
  Claim C9. \<^verbatim>\<open>canHandle\<close> called a second time on the same input, with no \<^verbatim>\<open>handle\<close> in
  between, returns what the first call returned (the same decision, or the same exception)
  and leaves the control as the first call left it, the same handler selected; and the
  first call changes neither the state nor the props of the control.
\<close>

theorem canHandle_idempotent:
  assumes "canHandle c input = (r, c1)"
  shows "canHandle c1 input = (r, c1) \<and> handleFunc (snd (canHandle c1 input)) = handleFunc c1
         \<and> state c1 = state c \<and> props c1 = props c"
  using canHandle_twice [OF assms] by simp

theorem canHandle_idempotent_witness:
  "canHandle houseControl (valueInput (Some Action_Set) ''Muggle'' True)
     = (Inr True, houseControl\<lparr>handleFunc := Some Fn_handleSetWithValue\<rparr>)
   \<and> canHandle (houseControl\<lparr>handleFunc := Some Fn_handleSetWithValue\<rparr>)
        (valueInput (Some Action_Set) ''Muggle'' True)
     = (Inr True, houseControl\<lparr>handleFunc := Some Fn_handleSetWithValue\<rparr>)
   \<and> state (houseControl\<lparr>handleFunc := Some Fn_handleSetWithValue\<rparr>) = state houseControl"
proof -
  let ?i = "valueInput (Some Action_Set) ''Muggle'' True"
  have first: "canHandle houseControl ?i
     = (Inr True, houseControl\<lparr>handleFunc := Some Fn_handleSetWithValue\<rparr>)"
    by (simp add: canHandle_def evaluateInputHandlers_def standardInputHandlers_def
          isSetWithValue_def isChangeWithValue_def isSetWithoutValue_def isChangeWithoutValue_def
          isBareValue_def isConfirmationAffirmed_def isConfirmationDisaffirmed_def
          lastInitiativeOf_def
          andThen_def okIf_def falseIfGuardFailed_def isIntent_def isBareYes_def isBareNo_def
          intentOf_def firstValue_def targetIsMatchOrUndefined_def valueTypeMatch_def
          valueStrDefined_def feedbackIsMatchOrUndefined_def actionIsMatch_def
          feedbackIsUndefined_def actionIsUndefined_def targetIsUndefined_def
          intentName_def GeneralControlIntent_name_def YesIntent_def NoIntent_def
          Action_Set_def Action_Change_def
          ConfirmValueAct_name_def valueInput_def houseControl_def houseProps_def
          mergeWithDefaultProps_def mergeArray_def initialState_def newValueControlState_def)
  from canHandle_idempotent [OF first] first show ?thesis by simp
qed

subsection \<open>The constructor\<close>

text \<open>
  Claim C10. For props whose slot type is \<^verbatim>\<open>AMAZON.SearchQuery\<close> the constructor throws and
  there is no control; for any other slot type it returns a control whose state has
  \<^verbatim>\<open>lastInitiative = {}\<close> and \<^verbatim>\<open>isValueConfirmed = false\<close> (and no value), with no handler
  and no initiative selected.
\<close>

theorem constructor_rejects_SearchQuery:
  "(raw_slotType p = SEARCH_QUERY \<longrightarrow> (\<exists>e. constructor p = Inl e))
   \<and> (raw_slotType p \<noteq> SEARCH_QUERY \<longrightarrow>
        (\<exists>c. constructor p = Inr c
            \<and> lastInitiative (state c) = Some \<lparr>actName = None\<rparr>
            \<and> isValueConfirmed (state c) = False
            \<and> value' (state c) = None
            \<and> handleFunc c = None \<and> initiativeFunc c = None))"
  by (simp add: constructor_def initialState_def newValueControlState_def)

theorem constructor_rejects_SearchQuery_witness:
  "(\<exists>e. constructor searchQueryProps = Inl e)
   \<and> constructor houseProps = Inr houseControl
   \<and> lastInitiative (state houseControl) = Some \<lparr>actName = None\<rparr>
   \<and> isValueConfirmed (state houseControl) = False"
proof -
  have s: "raw_slotType searchQueryProps = SEARCH_QUERY"
    by (simp add: searchQueryProps_def SEARCH_QUERY_def)
  have h: "raw_slotType houseProps \<noteq> SEARCH_QUERY"
    by (simp add: houseProps_def SEARCH_QUERY_def)
  from constructor_rejects_SearchQuery [of searchQueryProps] s
  have 1: "\<exists>e. constructor searchQueryProps = Inl e" by blast
  from constructor_rejects_SearchQuery [of houseProps] h
  obtain c where c: "constructor houseProps = Inr c"
    "lastInitiative (state c) = Some \<lparr>actName = None\<rparr>" "isValueConfirmed (state c) = False"
    by blast
  have "constructor houseProps = Inr houseControl"
    using h by (simp add: constructor_def houseControl_def)
  with c 1 show ?thesis by simp
qed

end
